theory Spec2Isabelle
  imports Complex_Main
begin

section \<open>Errors and the Python runtime\<close>

text \<open>
  Every exception that the orchestration script can raise is a value of \<open>error\<close>;
  a computation that may raise returns \<open>error + 'a\<close> with \<open>Inl\<close> for the exception.
\<close>

datatype error =
    SystemExit int
  | KeyError string
  | NoSectionError string
  | NoOptionError string string
  | ValueError
  | OverflowError
  | ParsingError string
  | FileNotFoundError string
  | InvalidModeError string
  | ZeroDivisionError
  | InterpolationSyntaxError string
  | InterpolationMissingOptionError string
  | InterpolationDepthError

section \<open>Step counter\<close>

text \<open>
  Modelled from the spec: the class \<open>Counter\<close> of \<open>utils\<close> is imported by
  \<open>main.py\<close> but its source is not part of the repository snapshot. The record has
  the four fields of the spec's StepCounterState; the constructor takes its arguments in
  the order of the call \<open>Counter(total_step, test_step, log_step)\<close> and starts at zero.
\<close>

record counter =
  cur_step :: int
  total_step :: int
  test_step :: int
  log_step :: int

definition Counter :: "int \<Rightarrow> int \<Rightarrow> int \<Rightarrow> counter" where
  "Counter total_steps test_interval log_interval =
     \<lparr>cur_step = 0, total_step = total_steps,
      test_step = test_interval, log_step = log_interval\<rparr>"

text \<open>
  Modelled from the spec: \<open>advance\<close> increments \<open>cur_step\<close> by one and returns it;
  once \<open>cur_step\<close> equals \<open>total_step\<close> it saturates: the counter is left as it is.
\<close>

definition advance :: "counter \<Rightarrow> int \<times> counter" where
  "advance c =
     (if cur_step c = total_step c then (cur_step c, c)
      else (cur_step c + 1, c\<lparr>cur_step := cur_step c + 1\<rparr>))"

text \<open>
  Modelled from the spec: \<open>should_log\<close> and \<open>should_test\<close> compare the remainder of
  the step by the interval with zero. Python's \<open>%\<close> on integers is the floored
  remainder, which is \<open>mod\<close> on \<open>int\<close>; it raises on a zero divisor.
\<close>

definition should_log :: "counter \<Rightarrow> int \<Rightarrow> error + bool" where
  "should_log c step =
     (if log_step c = 0 then Inl ZeroDivisionError else Inr (step mod log_step c = 0))"

definition should_test :: "counter \<Rightarrow> int \<Rightarrow> error + bool" where
  "should_test c step =
     (if test_step c = 0 then Inl ZeroDivisionError else Inr (step mod test_step c = 0))"

text \<open>
  Modelled from the spec: \<open>is_done\<close> holds once the current step has reached the
  total.
\<close>

definition is_done :: "counter \<Rightarrow> bool" where
  "is_done c \<longleftrightarrow> cur_step c \<ge> total_step c"

text \<open>The counter after \<open>n\<close> calls of \<open>advance\<close>, and the steps those calls return.\<close>

fun advance_n :: "nat \<Rightarrow> counter \<Rightarrow> counter" where
  "advance_n 0 c = c"
| "advance_n (Suc n) c = advance_n n (snd (advance c))"

fun advance_steps :: "nat \<Rightarrow> counter \<Rightarrow> int list" where
  "advance_steps 0 c = []"
| "advance_steps (Suc n) c = fst (advance c) # advance_steps n (snd (advance c))"

section \<open>Test-mode resolver\<close>

text \<open>
  Modelled from the spec: \<open>init_test_flag\<close> of \<open>utils\<close> is not part of the
  repository snapshot. It maps the four test modes to the pair
  \<open>(in_train_test, post_test)\<close> and fails on any other string.
\<close>

definition init_test_flag :: "string \<Rightarrow> error + bool \<times> bool" where
  "init_test_flag test_mode =
     (if test_mode = ''no_test'' then Inr (False, False)
      else if test_mode = ''in_train_test'' then Inr (True, False)
      else if test_mode = ''after_train_test'' then Inr (False, True)
      else if test_mode = ''all_test'' then Inr (True, True)
      else Inl (InvalidModeError test_mode))"

section \<open>Command line\<close>

text \<open>
  What the user typed, after \<open>argparse\<close> has split it: the optional \<open>--base-dir\<close> and
  the subcommand with the options given to it (\<open>None\<close> for an option left out).
\<close>

datatype subcommand =
    NoCommand
  | TrainCommand "string option" "string option"
  | EvaluateCommand "string option" "string option"
  | UnknownCommand string

record cmdline =
  given_base_dir :: "string option"
  given_command :: subcommand

text \<open>
  The namespace returned by \<open>parse_args\<close>. Python's namespace holds only the attributes
  of the chosen subcommand; the attributes of the other one are empty here and never read.
\<close>

record args =
  base_dir :: string
  option :: string
  test_mode :: string
  config_dir :: string
  agents :: string
  evaluation_policy_type :: string

definition default_base_dir :: string where
  "default_base_dir =
     ''/Users/tchu/Documents/rl_test/signal_control_results/eval_sep2019/large_grid''"

definition default_config_dir :: string where
  "default_config_dir = ''./config/config_test_large.ini''"

definition test_mode_choices :: "string list" where
  "test_mode_choices = [''no_test'', ''in_train_test'', ''after_train_test'', ''all_test'']"

definition or_default :: "'a option \<Rightarrow> 'a \<Rightarrow> 'a" where
  "or_default given d = (case given of None \<Rightarrow> d | Some v \<Rightarrow> v)"

text \<open>
  \<open>parse_args\<close>: \<open>argparse\<close> leaves with status 2 on a subcommand it does not know and
  on a \<open>--test-mode\<close> outside \<open>choices\<close>; the script itself leaves with status 1 when
  no subcommand was given.
\<close>

definition parse_args :: "cmdline \<Rightarrow> error + args" where
  "parse_args cl =
     (let base = or_default (given_base_dir cl) default_base_dir in
      case given_command cl of
        UnknownCommand s \<Rightarrow> Inl (SystemExit 2)
      | TrainCommand tm cd \<Rightarrow>
          (if or_default tm ''no_test'' \<in> set test_mode_choices
           then Inr \<lparr>base_dir = base, option = ''train'',
                      test_mode = or_default tm ''no_test'',
                      config_dir = or_default cd default_config_dir,
                      agents = [], evaluation_policy_type = []\<rparr>
           else Inl (SystemExit 2))
      | EvaluateCommand ag pt \<Rightarrow>
          Inr \<lparr>base_dir = base, option = ''evaluate'',
                test_mode = [], config_dir = [],
                agents = or_default ag ''naive'',
                evaluation_policy_type = or_default pt ''default''\<rparr>
      | NoCommand \<Rightarrow> Inl (SystemExit 1))"

section \<open>The world: disk, simulator, log\<close>

text \<open>
  A configuration as \<open>configparser\<close> holds it: sections of options, every value a string.
\<close>

type_synonym ini_section = "(string \<times> string) list"
type_synonym config = "(string \<times> ini_section) list"

datatype disk_file = IniFile config | Garbled

text \<open>
  Everything the script does to the outside is an event of the trace, in the order it
  happens in the thread that does it.
\<close>

datatype event =
    LogInfo string
  | LogError string
  | BindPort int
  | TrainStep int
  | InLoopTest int
  | OfflineTest string
  | SaveModel string int
  | EvalOutput string string
  | ThreadCreate nat int
  | ThreadStart nat
  | ThreadJoin nat

text \<open>
  A worker thread: the arguments it was created with, what its target returned or raised,
  and the events of its own run.
\<close>

record worker =
  w_agent_dir :: string
  w_output_dir :: string
  w_port :: int
  w_policy_type :: string
  w_outcome :: "error + unit"
  w_trace :: "event list"

record world =
  fs_dirs :: "string set"
  fs_files :: "(string \<times> disk_file) list"
  fs_models :: "string set"
  trace :: "event list"
  workers :: "worker list"

type_synonym 'a io = "world \<Rightarrow> (error + 'a) \<times> world"

definition return :: "'a \<Rightarrow> 'a io" where
  "return x w = (Inr x, w)"

definition bind :: "'a io \<Rightarrow> ('a \<Rightarrow> 'b io) \<Rightarrow> 'b io" where
  "bind m f w = (case m w of (Inl e, w') \<Rightarrow> (Inl e, w') | (Inr x, w') \<Rightarrow> f x w')"

definition lift :: "error + 'a \<Rightarrow> 'a io" where
  "lift r w = (r, w)"

definition emit :: "event \<Rightarrow> unit io" where
  "emit ev w = (Inr (), w\<lparr>trace := trace w @ [ev]\<rparr>)"

text \<open>A dictionary read \<open>d[k]\<close> raises \<open>KeyError\<close> on a key that is not there.\<close>

definition getitem :: "(string \<times> 'a) list \<Rightarrow> string \<Rightarrow> error + 'a" where
  "getitem d k = (case map_of d k of None \<Rightarrow> Inl (KeyError k) | Some v \<Rightarrow> Inr v)"

text \<open>\<open>s.split(sep)\<close> for a separator of one character; the result is never empty.\<close>

fun py_split :: "char \<Rightarrow> string \<Rightarrow> string list" where
  "py_split sep [] = [[]]"
| "py_split sep (c # cs) =
     (if c = sep then [] # py_split sep cs
      else (case py_split sep cs of
              [] \<Rightarrow> [[c]]
            | x # xs \<Rightarrow> (c # x) # xs))"

section \<open>Experiment directories\<close>

text \<open>
  Modelled from the spec: \<open>init_dir\<close>, \<open>init_log\<close>, \<open>copy_file\<close>, \<open>check_dir\<close> and
  \<open>find_file\<close> of \<open>utils\<close> are not part of the repository snapshot.
  \<open>init_dir\<close> creates \<open>base_dir/role\<close> for each role if absent and returns the mapping
  from role to path; without \<open>pathes\<close> the roles are those of a training run.
  \<open>copy_file\<close> copies the configuration file into the data directory verbatim, which
  needs the file to be there. \<open>check_dir\<close> tells whether a directory exists.
  \<open>find_file\<close> locates a file directly inside the directory it is given; when there is
  none the error is logged and nothing is returned. Setting up the logging sink leaves
  no trace.
\<close>

definition role_path :: "string \<Rightarrow> string \<Rightarrow> string" where
  "role_path base role = base @ ''/'' @ role"

definition default_pathes :: "string list" where
  "default_pathes = [''log'', ''data'', ''model'']"

definition init_dir :: "string \<Rightarrow> string list \<Rightarrow> (string \<times> string) list io" where
  "init_dir base pathes w =
     (Inr (map (\<lambda>role. (role, role_path base role)) pathes),
      w\<lparr>fs_dirs := fs_dirs w \<union> set (map (role_path base) pathes)\<rparr>)"

definition init_log :: "string \<Rightarrow> unit io" where
  "init_log log_dir = return ()"

definition copy_file :: "string \<Rightarrow> string \<Rightarrow> unit io" where
  "copy_file src tar_dir w =
     (case map_of (fs_files w) src of
        None \<Rightarrow> (Inl (FileNotFoundError src), w)
      | Some f \<Rightarrow>
          (Inr (), w\<lparr>fs_files :=
                        (tar_dir @ ''/'' @ last (py_split CHR ''/'' src), f) # fs_files w\<rparr>))"

definition check_dir :: "string \<Rightarrow> bool io" where
  "check_dir cur_dir w = (Inr (cur_dir \<in> fs_dirs w), w)"

definition in_dir :: "string \<Rightarrow> string \<Rightarrow> bool" where
  "in_dir cur_dir path \<longleftrightarrow>
     take (length cur_dir) path = cur_dir \<and>
     drop (length cur_dir) path \<noteq> [] \<and>
     CHR ''/'' \<notin> set (drop (length cur_dir) path)"

definition find_file :: "string \<Rightarrow> string option io" where
  "find_file cur_dir w =
     (case filter (in_dir cur_dir) (map fst (fs_files w)) of
        [] \<Rightarrow> (Inr None,
               w\<lparr>trace := trace w @ [LogError (''Cannot find config file in '' @ cur_dir)]\<rparr>)
      | path # _ \<Rightarrow> (Inr (Some path), w))"

section \<open>Reading the configuration\<close>

text \<open>
  \<open>ConfigParser.read\<close> skips a file it cannot open, which leaves the configuration
  empty, and raises on a file it cannot parse. \<open>config[name]\<close> raises \<open>KeyError\<close> on a
  missing section. The \<open>DEFAULT\<close> section of a file is the section of that name here.
\<close>

definition read_config :: "string \<Rightarrow> config io" where
  "read_config path w =
     (case map_of (fs_files w) path of
        None \<Rightarrow> (Inr [], w)
      | Some Garbled \<Rightarrow> (Inl (ParsingError path), w)
      | Some (IniFile c) \<Rightarrow> (Inr c, w))"

text \<open>
  The strings of the interpreter: white space as \<open>float\<close> and \<open>int\<close> strip it, the
  decimal digits, and the lower case of an ASCII letter.
\<close>

definition is_space :: "char \<Rightarrow> bool" where
  "is_space c \<longleftrightarrow> c \<in> set [CHR '' '', CHR 0x09, CHR 0x0A, CHR 0x0B, CHR 0x0C, CHR 0x0D]"

definition strip :: "string \<Rightarrow> string" where
  "strip s = rev (dropWhile is_space (rev (dropWhile is_space s)))"

definition is_digit :: "char \<Rightarrow> bool" where
  "is_digit c \<longleftrightarrow> c \<in> set ''0123456789''"

definition digit_val :: "char \<Rightarrow> int" where
  "digit_val c = (case map_of (zip ''0123456789'' [0, 1, 2, 3, 4, 5, 6, 7, 8, 9]) c of
                    None \<Rightarrow> 0 | Some d \<Rightarrow> d)"

definition int_of_digits :: "string \<Rightarrow> int" where
  "int_of_digits ds = foldl (\<lambda>acc c. 10 * acc + digit_val c) 0 ds"

definition lower :: "char \<Rightarrow> char" where
  "lower c = (case map_of (zip ''ABCDEFGHIJKLMNOPQRSTUVWXYZ'' ''abcdefghijklmnopqrstuvwxyz'') c of
                None \<Rightarrow> c | Some l \<Rightarrow> l)"

text \<open>
  An underscore in a numeric string is allowed only between two digits; the conversion
  removes those and refuses the string on any other.
\<close>

fun drop_underscores :: "char \<Rightarrow> string \<Rightarrow> string option" where
  "drop_underscores prev [] = (if prev = CHR ''_'' then None else Some [])"
| "drop_underscores prev (c # cs) =
     (if c = CHR ''_'' then
        (if is_digit prev then drop_underscores c cs else None)
      else if prev = CHR ''_'' \<and> \<not> is_digit c then None
      else map_option ((#) c) (drop_underscores c cs))"

definition parse_sign :: "string \<Rightarrow> bool \<times> string" where
  "parse_sign s =
     (case s of
        [] \<Rightarrow> (False, [])
      | c # cs \<Rightarrow> if c = CHR ''-'' then (True, cs)
                  else if c = CHR ''+'' then (False, cs) else (False, s))"

text \<open>
  What \<open>float(s)\<close> accepts, read exactly: a sign and then an infinity, a NaN, or
  decimal digits with an optional point and an optional exponent, at least one digit
  before the exponent. \<open>Decimal neg m e\<close> stands for the number \<open>m * 10 ^ e\<close>, negated
  under \<open>neg\<close>.
\<close>

datatype literal = Decimal bool int int | Infinity bool | NotANumber

definition parse_exponent :: "string \<Rightarrow> int option" where
  "parse_exponent s =
     (case s of
        [] \<Rightarrow> Some 0
      | c # cs \<Rightarrow>
          if c = CHR ''e'' \<or> c = CHR ''E'' then
            (case parse_sign cs of
               (neg, ds) \<Rightarrow>
                 if ds \<noteq> [] \<and> list_all is_digit ds
                 then Some (if neg then - int_of_digits ds else int_of_digits ds)
                 else None)
          else None)"

definition parse_float :: "string \<Rightarrow> literal option" where
  "parse_float s =
     (case parse_sign s of
        (neg, body) \<Rightarrow>
          if map lower body = ''inf'' \<or> map lower body = ''infinity'' then Some (Infinity neg)
          else if map lower body = ''nan'' then Some NotANumber
          else
            (let ip = takeWhile is_digit body;
                 r1 = dropWhile is_digit body;
                 fp = (case r1 of [] \<Rightarrow> [] | c # cs \<Rightarrow>
                         if c = CHR ''.'' then takeWhile is_digit cs else []);
                 r2 = (case r1 of [] \<Rightarrow> [] | c # cs \<Rightarrow>
                         if c = CHR ''.'' then dropWhile is_digit cs else r1)
             in if ip @ fp = [] then None
                else (case parse_exponent r2 of
                        None \<Rightarrow> None
                      | Some e \<Rightarrow>
                          Some (Decimal neg (int_of_digits (ip @ fp)) (e - int (length fp))))))"

text \<open>
  A Python float is an IEEE double: a finite number, an infinity or a NaN. A finite
  double is \<open>m * 2 ^ s\<close> with \<open>m < 2 ^ 53\<close> and \<open>- 1074 \<le> s \<le> 971\<close>. The conversion of a
  decimal gives the double nearest to the positive fraction \<open>num / den\<close>, the even
  mantissa on a tie, and no double when that is beyond the largest one.
\<close>

datatype pyfloat = Finite real | PosInf | NegInf | NaN

function bit_length :: "int \<Rightarrow> int" where
  "bit_length n = (if n \<le> 0 then 0 else bit_length (n div 2) + 1)"
  by pat_completeness auto
termination
  by (relation "measure nat") auto

declare bit_length.simps [simp del]

definition floor_log2 :: "int \<Rightarrow> int \<Rightarrow> int" where
  "floor_log2 num den =
     (let k = bit_length num - bit_length den in
      if (if 0 \<le> k then den * 2 ^ nat k \<le> num else den \<le> num * 2 ^ nat (- k))
      then k else k - 1)"

definition round_half_even :: "int \<Rightarrow> int \<Rightarrow> int" where
  "round_half_even n d =
     (let q = n div d; r = n mod d in
      if d < 2 * r \<or> (2 * r = d \<and> odd q) then q + 1 else q)"

definition nearest_double :: "int \<Rightarrow> int \<Rightarrow> (int \<times> int) option" where
  "nearest_double num den =
     (let s = max (floor_log2 num den) (- 1022) - 52;
          m = (if 0 \<le> s then round_half_even num (den * 2 ^ nat s)
               else round_half_even (num * 2 ^ nat (- s)) den)
      in if s \<le> 971 \<and> (s < 971 \<or> m < 2 ^ 53) then Some (m, s) else None)"

definition scale2 :: "int \<Rightarrow> int \<Rightarrow> real" where
  "scale2 m s = (if 0 \<le> s then of_int m * 2 ^ nat s else of_int m / 2 ^ nat (- s))"

definition double_of_literal :: "literal \<Rightarrow> pyfloat" where
  "double_of_literal l =
     (case l of
        Infinity neg \<Rightarrow> if neg then NegInf else PosInf
      | NotANumber \<Rightarrow> NaN
      | Decimal neg m e \<Rightarrow>
          if m = 0 then Finite 0
          else
            (case (if 0 \<le> e then nearest_double (m * 10 ^ nat e) 1
                   else nearest_double m (10 ^ nat (- e))) of
               None \<Rightarrow> if neg then NegInf else PosInf
             | Some (mant, s) \<Rightarrow> Finite (if neg then - scale2 mant s else scale2 mant s)))"

text \<open>
  \<open>float(s)\<close> on a string: underscores out, white space stripped, the rest read as a
  whole and rounded. \<open>int(s)\<close> on a string: white space stripped, a sign, then decimal
  digits with underscores between them.
\<close>

definition py_float :: "string \<Rightarrow> error + pyfloat" where
  "py_float s =
     (case drop_underscores (CHR 0x00) s of
        None \<Rightarrow> Inl ValueError
      | Some t \<Rightarrow>
          (case parse_float (strip t) of
             None \<Rightarrow> Inl ValueError
           | Some l \<Rightarrow> Inr (double_of_literal l)))"

definition py_int_of_string :: "string \<Rightarrow> error + int" where
  "py_int_of_string s =
     (case parse_sign (strip s) of
        (neg, body) \<Rightarrow>
          (case drop_underscores (CHR 0x00) body of
             None \<Rightarrow> Inl ValueError
           | Some ds \<Rightarrow>
               if ds \<noteq> [] \<and> list_all is_digit ds
               then Inr (if neg then - int_of_digits ds else int_of_digits ds)
               else Inl ValueError))"

text \<open>
  The two conversions are a parameter of what reads the configuration, \<open>None\<close> where the
  conversion raises \<open>ValueError\<close>; \<open>python\<close> is the interpreter's pair. What does not
  depend on the conversions is stated for any pair.
\<close>

record runtime =
  float_of :: "string \<Rightarrow> pyfloat option"
  int_of :: "string \<Rightarrow> int option"

definition python :: runtime where
  "python =
     \<lparr>float_of = (\<lambda>s. case py_float s of Inl e \<Rightarrow> None | Inr x \<Rightarrow> Some x),
      int_of = (\<lambda>s. case py_int_of_string s of Inl e \<Rightarrow> None | Inr n \<Rightarrow> Some n)\<rparr>"

text \<open>
  \<open>ConfigParser.get(section, option)\<close>. The options of the section come first and
  those of the \<open>DEFAULT\<close> section after them; a section that is not there raises
  \<open>NoSectionError\<close> unless it is \<open>DEFAULT\<close> itself. The option name is put to lower
  case, as the parser did with the names it stored. The value found is interpolated:
  \<open>%%\<close> stands for a percent sign and \<open>%(name)s\<close> for the value of the option
  \<open>name\<close>, itself interpolated when it holds a percent sign, down to ten levels.
\<close>

definition defaults :: "config \<Rightarrow> ini_section" where
  "defaults config = (case map_of config ''DEFAULT'' of None \<Rightarrow> [] | Some d \<Rightarrow> d)"

definition unify_values :: "config \<Rightarrow> string \<Rightarrow> error + ini_section" where
  "unify_values config sec =
     (case map_of config sec of
        None \<Rightarrow> if sec \<noteq> ''DEFAULT'' then Inl (NoSectionError sec) else Inr (defaults config)
      | Some d \<Rightarrow> Inr (d @ defaults config))"

definition key_ref :: "string \<Rightarrow> (string \<times> string) option" where
  "key_ref s =
     (let name = takeWhile (\<lambda>c. c \<noteq> CHR '')'') s;
          after = dropWhile (\<lambda>c. c \<noteq> CHR '')'') s
      in if name = [] then None
         else (case after of
                 c1 # c2 # rest \<Rightarrow> if c2 = CHR ''s'' then Some (name, rest) else None
               | _ \<Rightarrow> None))"

lemma key_ref_shorter: "key_ref s = Some (name, rest) \<Longrightarrow> length rest < length s"
proof -
  assume k: "key_ref s = Some (name, rest)"
  have "length (dropWhile (\<lambda>c. c \<noteq> CHR '')'') s) \<le> length s"
    by (rule length_dropWhile_le)
  with k show ?thesis
    by (auto simp: key_ref_def Let_def split: if_splits list.splits)
qed

function interpolate_some ::
  "(string \<Rightarrow> error + string) \<Rightarrow> ini_section \<Rightarrow> string \<Rightarrow> error + string" where
  "interpolate_some deeper m rest =
     (case rest of
        [] \<Rightarrow> Inr []
      | c # cs \<Rightarrow>
          if c \<noteq> CHR ''%'' then
            (case interpolate_some deeper m cs of Inl e \<Rightarrow> Inl e | Inr t \<Rightarrow> Inr (c # t))
          else
            (case cs of
               [] \<Rightarrow> Inl (InterpolationSyntaxError rest)
             | d # ds \<Rightarrow>
                 if d = CHR ''%'' then
                   (case interpolate_some deeper m ds of
                      Inl e \<Rightarrow> Inl e
                    | Inr t \<Rightarrow> Inr (CHR ''%'' # t))
                 else if d = CHR ''('' then
                   (case key_ref ds of
                      None \<Rightarrow> Inl (InterpolationSyntaxError rest)
                    | Some (name, after) \<Rightarrow>
                        (case map_of m (map lower name) of
                           None \<Rightarrow> Inl (InterpolationMissingOptionError (map lower name))
                         | Some v \<Rightarrow>
                             (case (if CHR ''%'' \<in> set v then deeper v else Inr v) of
                                Inl e \<Rightarrow> Inl e
                              | Inr t \<Rightarrow>
                                  (case interpolate_some deeper m after of
                                     Inl e \<Rightarrow> Inl e
                                   | Inr u \<Rightarrow> Inr (t @ u)))))
                 else Inl (InterpolationSyntaxError rest)))"
  by pat_completeness auto
termination
  by (relation "measure (\<lambda>(deeper, m, rest). length rest)")
     (auto dest: key_ref_shorter)

declare interpolate_some.simps [simp del]

fun interpolate :: "nat \<Rightarrow> ini_section \<Rightarrow> string \<Rightarrow> error + string" where
  "interpolate 0 m v = Inl InterpolationDepthError"
| "interpolate (Suc depth) m v = interpolate_some (interpolate depth m) m v"

definition config_get :: "config \<Rightarrow> string \<Rightarrow> string \<Rightarrow> error + string" where
  "config_get config sec opt =
     (case unify_values config sec of
        Inl e \<Rightarrow> Inl e
      | Inr d \<Rightarrow>
          (case map_of d (map lower opt) of
             None \<Rightarrow> Inl (NoOptionError (map lower opt) sec)
           | Some v \<Rightarrow> interpolate 10 d v))"

definition getfloat :: "runtime \<Rightarrow> config \<Rightarrow> string \<Rightarrow> string \<Rightarrow> error + pyfloat" where
  "getfloat rt config sec opt =
     (case config_get config sec opt of
        Inl e \<Rightarrow> Inl e
      | Inr v \<Rightarrow> (case float_of rt v of None \<Rightarrow> Inl ValueError | Some x \<Rightarrow> Inr x))"

definition getint :: "runtime \<Rightarrow> config \<Rightarrow> string \<Rightarrow> string \<Rightarrow> error + int" where
  "getint rt config sec opt =
     (case config_get config sec opt of
        Inl e \<Rightarrow> Inl e
      | Inr v \<Rightarrow> (case int_of rt v of None \<Rightarrow> Inl ValueError | Some n \<Rightarrow> Inr n))"

text \<open>
  \<open>int(x)\<close> on a float drops the fraction, towards zero; it raises \<open>OverflowError\<close> on
  an infinity and \<open>ValueError\<close> on a NaN.
\<close>

definition py_int :: "pyfloat \<Rightarrow> error + int" where
  "py_int x =
     (case x of
        Finite q \<Rightarrow> Inr (if 0 \<le> q then \<lfloor>q\<rfloor> else \<lceil>q\<rceil>)
      | PosInf \<Rightarrow> Inl OverflowError
      | NegInf \<Rightarrow> Inl OverflowError
      | NaN \<Rightarrow> Inl ValueError)"

definition int_getfloat :: "runtime \<Rightarrow> config \<Rightarrow> string \<Rightarrow> string \<Rightarrow> error + int" where
  "int_getfloat rt config sec opt =
     (case getfloat rt config sec opt of Inl e \<Rightarrow> Inl e | Inr x \<Rightarrow> py_int x)"

section \<open>Environment and model\<close>

text \<open>
  Modelled from the spec: the environment class \<open>RealNetEnv\<close> and its controller (module
  \<open>envs\<close>) and the model class \<open>MA2C\<close> (module \<open>agents\<close>) are not part of the
  repository snapshot. Constructing an environment binds it to the simulator port it is
  given; of the environment the record keeps that port and the agent name. Of the model
  the record keeps the arguments of the constructor; \<open>save\<close> writes a checkpoint tagged
  with the step.
\<close>

record env =
  env_port :: int
  env_agent :: string

datatype controller = RealNetController env

definition RealNetEnv :: "ini_section \<Rightarrow> int \<Rightarrow> env io" where
  "RealNetEnv config port w =
     (Inr \<lparr>env_port = port, env_agent = []\<rparr>, w\<lparr>trace := trace w @ [BindPort port]\<rparr>)"

text \<open>
  \<open>init_env(config, port=1, naive_policy=False)\<close>: a call without \<open>port\<close> is
  \<open>None\<close> here and takes the default. The result is the environment, with the baseline
  controller when \<open>naive_policy\<close> is set.
\<close>

definition init_env :: "ini_section \<Rightarrow> int option \<Rightarrow> bool \<Rightarrow> (env \<times> controller option) io" where
  "init_env config port_arg naive_policy =
     (let port = or_default port_arg 1 in
      if \<not> naive_policy then
        bind (RealNetEnv config port) (\<lambda>env. return (env, None))
      else
        bind (RealNetEnv config port)
          (\<lambda>env. return (env, Some (RealNetController env))))"

record model =
  m_total_step :: int
  m_config :: ini_section
  m_seed :: "int option"

definition MA2C :: "int \<Rightarrow> ini_section \<Rightarrow> int option \<Rightarrow> model" where
  "MA2C total_steps model_config seed =
     \<lparr>m_total_step = total_steps, m_config = model_config, m_seed = seed\<rparr>"

definition save :: "model \<Rightarrow> string \<Rightarrow> int \<Rightarrow> unit io" where
  "save m model_dir global_step = emit (SaveModel model_dir global_step)"

text \<open>
  Modelled from the spec: \<open>load\<close> of the model class is not part of the repository
  snapshot. It returns whether trained parameters could be loaded from the directory, and
  a failure is logged.
\<close>

definition load :: "model \<Rightarrow> string \<Rightarrow> bool io" where
  "load m model_dir w =
     (if model_dir \<in> fs_models w then (Inr True, w)
      else (Inr False,
            w\<lparr>trace := trace w @ [LogError (''Cannot load model from '' @ model_dir)]\<rparr>))"

section \<open>Training\<close>

text \<open>
  Modelled from the spec: the classes \<open>Trainer\<close> and \<open>Tester\<close> of \<open>utils\<close> are not
  part of the repository snapshot. \<open>Trainer.run\<close> is the step loop of the training
  driver: while the counter is not done, interact with environment and model for one
  step, advance the counter, and trigger an in-loop test when in-training tests are on and
  the counter says so for the step just reached. \<open>Tester.run_offline\<close> is one offline
  test pass; it leaves the counter as it is.
\<close>

function Trainer_run :: "bool \<Rightarrow> counter \<Rightarrow> world \<Rightarrow> (error + counter) \<times> world" where
  "Trainer_run in_test c w =
     (if is_done c then (Inr c, w)
      else
        (let step = fst (advance c);
             c' = snd (advance c);
             w' = w\<lparr>trace := trace w @ [TrainStep step]\<rparr>
         in
           if in_test then
             (case should_test c' step of
                Inl e \<Rightarrow> (Inl e, w')
              | Inr fire \<Rightarrow>
                  if fire
                  then Trainer_run in_test c' (w'\<lparr>trace := trace w' @ [InLoopTest step]\<rparr>)
                  else Trainer_run in_test c' w')
           else Trainer_run in_test c' w'))"
  by pat_completeness auto
termination
  by (relation "measure (\<lambda>(in_test, c, w). nat (total_step c - cur_step c))")
     (auto simp: is_done_def advance_def)

declare Trainer_run.simps [simp del]

definition run_offline :: "string \<Rightarrow> unit io" where
  "run_offline data_dir = emit (OfflineTest data_dir)"

text \<open>
  \<open>train\<close>, statement by statement. The summary writer and the logging of the
  dimensions touch nothing that is modelled beyond the log line itself. The dictionary
  \<open>dirs\<close> is never changed, so \<open>dirs['data']\<close>, which the source reads again for the
  trainer and the tester, is read once.
\<close>

definition train :: "runtime \<Rightarrow> args \<Rightarrow> unit io" where
  "train rt a =
     bind (init_dir (base_dir a) default_pathes) (\<lambda>dirs.
     bind (lift (getitem dirs ''log'')) (\<lambda>log_dir.
     bind (init_log log_dir) (\<lambda>_.
     bind (lift (getitem dirs ''data'')) (\<lambda>data_dir.
     bind (copy_file (config_dir a) data_dir) (\<lambda>_.
     bind (read_config (config_dir a)) (\<lambda>config.
     bind (lift (init_test_flag (test_mode a))) (\<lambda>(in_test, post_test).
     bind (lift (getitem config ''ENV_CONFIG'')) (\<lambda>env_config.
     bind (init_env env_config None False) (\<lambda>(env, _).
     bind (emit (LogInfo ''Training: s dim, a dim, s dim ls, a dim ls'')) (\<lambda>_.
     bind (lift (int_getfloat rt config ''TRAIN_CONFIG'' ''total_step'')) (\<lambda>total_step.
     bind (lift (int_getfloat rt config ''TRAIN_CONFIG'' ''test_interval'')) (\<lambda>test_step.
     bind (lift (int_getfloat rt config ''TRAIN_CONFIG'' ''log_interval'')) (\<lambda>log_step.
     bind (lift (getint rt config ''ENV_CONFIG'' ''seed'')) (\<lambda>seed.
     bind (lift (getitem config ''MODEL_CONFIG'')) (\<lambda>model_config.
     bind (Trainer_run in_test (Counter total_step test_step log_step)) (\<lambda>global_counter.
     bind (if post_test then run_offline data_dir else return ()) (\<lambda>_.
     bind (emit (LogInfo ''Training: save final model at step'')) (\<lambda>_.
     bind (lift (getitem dirs ''model'')) (\<lambda>model_dir.
       save (MA2C total_step model_config (Some seed)) model_dir
         (cur_step global_counter))))))))))))))))))))"

section \<open>Evaluation\<close>

text \<open>
  Modelled from the spec: the class \<open>Evaluator\<close> of \<open>utils\<close> is not part of the
  repository snapshot. Its run writes the results into the output directory, keyed by the
  agent of the environment.
\<close>

definition Evaluator_run :: "env \<Rightarrow> model \<Rightarrow> string \<Rightarrow> string \<Rightarrow> unit io" where
  "Evaluator_run e m output_dir policy_type = emit (EvalOutput output_dir (env_agent e))"

text \<open>
  \<open>evaluate_fn\<close>, statement by statement; what it prints to standard output is left
  out. It has no handler: an exception of a statement ends the task.
\<close>

definition evaluate_fn :: "string \<Rightarrow> string \<Rightarrow> int \<Rightarrow> string \<Rightarrow> unit io" where
  "evaluate_fn agent_dir output_dir port policy_type =
     (let agent = last (py_split CHR ''/'' agent_dir) in
      bind (check_dir agent_dir) (\<lambda>found.
      if \<not> found then emit (LogError (''Evaluation: '' @ agent @ '' does not exist!''))
      else
        bind (find_file (agent_dir @ ''/data/'')) (\<lambda>config_dir.
        case config_dir of
          None \<Rightarrow> return ()
        | Some config_path \<Rightarrow>
            bind (read_config config_path) (\<lambda>config.
            bind (lift (getitem config ''ENV_CONFIG'')) (\<lambda>env_config.
            bind (init_env env_config (Some port) False) (\<lambda>(env, _).
            bind (emit (LogInfo ''Evaluation: s dim, a dim, s dim ls, a dim ls'')) (\<lambda>_.
            bind (lift (getitem config ''MODEL_CONFIG'')) (\<lambda>model_config.
            bind (load (MA2C 0 model_config None) (agent_dir @ ''/model/'')) (\<lambda>loaded.
            if \<not> loaded then return ()
            else
              Evaluator_run (env\<lparr>env_agent := agent\<rparr>) (MA2C 0 model_config None)
                output_dir policy_type)))))))))"

text \<open>
  Threads. \<open>Thread(target=evaluate_fn, args=...)\<close> makes a thread that holds its
  arguments; \<open>start\<close> runs the target in a thread of its own, where an exception ends
  that thread only; \<open>join\<close> waits for the thread and returns nothing, whatever the
  target did. A worker reads the disk as it is when it starts and has a trace of its own.
\<close>

record thread =
  t_index :: nat
  t_agent_dir :: string
  t_output_dir :: string
  t_port :: int
  t_policy_type :: string

definition Thread :: "nat \<Rightarrow> string \<Rightarrow> string \<Rightarrow> int \<Rightarrow> string \<Rightarrow> thread io" where
  "Thread i agent_dir output_dir port policy_type w =
     (Inr \<lparr>t_index = i, t_agent_dir = agent_dir, t_output_dir = output_dir,
           t_port = port, t_policy_type = policy_type\<rparr>,
      w\<lparr>trace := trace w @ [ThreadCreate i port]\<rparr>)"

definition run_target :: "thread \<Rightarrow> world \<Rightarrow> worker" where
  "run_target t w =
     (case evaluate_fn (t_agent_dir t) (t_output_dir t) (t_port t) (t_policy_type t)
             (w\<lparr>trace := [], workers := []\<rparr>) of
        (r, w') \<Rightarrow>
          \<lparr>w_agent_dir = t_agent_dir t, w_output_dir = t_output_dir t,
           w_port = t_port t, w_policy_type = t_policy_type t,
           w_outcome = r, w_trace = trace w'\<rparr>)"

definition start :: "thread \<Rightarrow> unit io" where
  "start t w =
     (Inr (), w\<lparr>trace := trace w @ [ThreadStart (t_index t)],
                 workers := workers w @ [run_target t w]\<rparr>)"

definition join :: "thread \<Rightarrow> unit io" where
  "join t = emit (ThreadJoin (t_index t))"

text \<open>
  The two loops of \<open>evaluate\<close>: create and start a thread per agent, then join each.
  The output directory \<open>dirs['eva_data']\<close>, which the source reads in every round of the
  first loop, is read once before it; the list of agents is never empty, so the read
  happens in both.
\<close>

fun start_threads :: "string \<Rightarrow> string \<Rightarrow> string \<Rightarrow> nat \<Rightarrow> string list \<Rightarrow> thread list io" where
  "start_threads base output_dir policy_type i [] = return []"
| "start_threads base output_dir policy_type i (agent # rest) =
     bind (Thread i (base @ ''/'' @ agent) output_dir (int i) policy_type) (\<lambda>t.
     bind (start t) (\<lambda>_.
     bind (start_threads base output_dir policy_type (Suc i) rest) (\<lambda>threads.
       return (t # threads))))"

fun join_threads :: "thread list \<Rightarrow> unit io" where
  "join_threads [] = return ()"
| "join_threads (t # threads) = bind (join t) (\<lambda>_. join_threads threads)"

definition evaluate :: "args \<Rightarrow> unit io" where
  "evaluate a =
     bind (init_dir (base_dir a) [''eva_data'', ''eva_log'']) (\<lambda>dirs.
     bind (lift (getitem dirs ''eva_log'')) (\<lambda>log_dir.
     bind (init_log log_dir) (\<lambda>_.
     bind (emit (LogInfo (''Evaluation: policy type: '' @ evaluation_policy_type a))) (\<lambda>_.
     bind (lift (getitem dirs ''eva_data'')) (\<lambda>output_dir.
     bind (start_threads (base_dir a) output_dir (evaluation_policy_type a) 0
             (py_split CHR '','' (agents a))) (\<lambda>threads.
       join_threads threads))))))"

section \<open>Entry point\<close>

definition main :: "runtime \<Rightarrow> cmdline \<Rightarrow> unit io" where
  "main rt cl w =
     (case parse_args cl of
        Inl e \<Rightarrow> (Inl e, w)
      | Inr a \<Rightarrow> if option a = ''train'' then train rt a w else evaluate a w)"

section \<open>Vocabulary of the statements\<close>

text \<open>
  The thread that \<open>evaluate\<close> makes for the agent at position \<open>k\<close> of the list, and the
  part of the world that a worker can read: the disk, without trace and workers.
\<close>

definition thread_for :: "string \<Rightarrow> string \<Rightarrow> string \<Rightarrow> nat \<times> string \<Rightarrow> thread" where
  "thread_for base output_dir policy_type p =
     \<lparr>t_index = fst p, t_agent_dir = base @ ''/'' @ snd p, t_output_dir = output_dir,
      t_port = int (fst p), t_policy_type = policy_type\<rparr>"

definition disk :: "world \<Rightarrow> world" where
  "disk w = w\<lparr>trace := [], workers := []\<rparr>"

text \<open>The events that a run added to the trace it started from.\<close>

definition new_events :: "world \<Rightarrow> world \<Rightarrow> event list" where
  "new_events w w' = drop (length (trace w)) (trace w')"

text \<open>
  The world in which the training loop starts, when \<open>train\<close> gets that far: the run
  directories are there, the configuration file \<open>f\<close> is copied into the data directory,
  and the environment is bound to its port and logged.
\<close>

definition train_start :: "args \<Rightarrow> disk_file \<Rightarrow> world \<Rightarrow> world" where
  "train_start a f w =
     w\<lparr>fs_dirs := fs_dirs w \<union> {role_path (base_dir a) ''log'',
                                   role_path (base_dir a) ''data'',
                                   role_path (base_dir a) ''model''},
       fs_files := (role_path (base_dir a) ''data'' @ ''/''
                      @ last (py_split CHR ''/'' (config_dir a)), f) # fs_files w,
       trace := trace w
         @ [BindPort 1, LogInfo ''Training: s dim, a dim, s dim ls, a dim ls'']\<rparr>"


text \<open>The workers that a run of the harness added.\<close>

definition new_workers :: "world \<Rightarrow> world \<Rightarrow> worker list" where
  "new_workers w w' = drop (length (workers w)) (workers w')"

text \<open>
  A trace in which every port was handed to its thread before the first thread started:
  from the first \<open>ThreadStart\<close> on, no thread is created.
\<close>

definition is_thread_create :: "event \<Rightarrow> bool" where
  "is_thread_create ev = (case ev of ThreadCreate i p \<Rightarrow> True | _ \<Rightarrow> False)"

definition is_thread_start :: "event \<Rightarrow> bool" where
  "is_thread_start ev = (case ev of ThreadStart i \<Rightarrow> True | _ \<Rightarrow> False)"

definition ports_assigned_before_any_start :: "event list \<Rightarrow> bool" where
  "ports_assigned_before_any_start tr \<longleftrightarrow>
     filter is_thread_create (dropWhile (\<lambda>ev. \<not> is_thread_start ev) tr) = []"

definition is_output :: "event \<Rightarrow> bool" where
  "is_output ev = (case ev of EvalOutput d a \<Rightarrow> True | _ \<Rightarrow> False)"

definition is_log_error :: "event \<Rightarrow> bool" where
  "is_log_error ev = (case ev of LogError m \<Rightarrow> True | _ \<Rightarrow> False)"

definition is_bind_port :: "event \<Rightarrow> bool" where
  "is_bind_port ev = (case ev of BindPort p \<Rightarrow> True | _ \<Rightarrow> False)"

definition is_in_loop_test :: "event \<Rightarrow> bool" where
  "is_in_loop_test ev = (case ev of InLoopTest s \<Rightarrow> True | _ \<Rightarrow> False)"

definition is_training_event :: "event \<Rightarrow> bool" where
  "is_training_event ev =
     (case ev of TrainStep s \<Rightarrow> True | InLoopTest s \<Rightarrow> True | _ \<Rightarrow> False)"

definition is_offline_test :: "event \<Rightarrow> bool" where
  "is_offline_test ev = (case ev of OfflineTest d \<Rightarrow> True | _ \<Rightarrow> False)"

text \<open>
  A small experiment for the concrete instances: a configuration with a fractional step
  budget, one whose step budget lies just below 3, and a disk on which the
  agent \<open>ma2c\<close> has been trained, the agent \<open>naive\<close> has no directory, \<open>empty\<close> has
  no snapshot of its configuration, \<open>untrained\<close> has no model, and the snapshot of
  \<open>broken\<close> has no section at all.
\<close>

definition demo_config :: config where
  "demo_config =
     [(''ENV_CONFIG'', [(''seed'', ''42'')]),
      (''TRAIN_CONFIG'',
         [(''total_step'', ''3.7''), (''test_interval'', ''2''), (''log_interval'', ''1'')]),
      (''MODEL_CONFIG'', [])]"

definition demo_round_config :: config where
  "demo_round_config =
     [(''ENV_CONFIG'', [(''seed'', ''42'')]),
      (''TRAIN_CONFIG'',
         [(''total_step'', ''2.9999999999999999''), (''test_interval'', ''2''),
          (''log_interval'', ''1'')]),
      (''MODEL_CONFIG'', [])]"

definition demo_world :: world where
  "demo_world =
     \<lparr>fs_dirs = {''exp'', ''exp/ma2c'', ''exp/broken'', ''exp/empty'', ''exp/untrained''},
      fs_files = [(''cfg/run.ini'', IniFile demo_config),
                  (''cfg/round.ini'', IniFile demo_round_config),
                  (''cfg/no_train.ini'', IniFile [(''ENV_CONFIG'', [(''seed'', ''42'')])]),
                  (''exp/ma2c/data/run.ini'', IniFile demo_config),
                  (''exp/untrained/data/run.ini'', IniFile demo_config),
                  (''exp/broken/data/run.ini'', IniFile [])],
      fs_models = {''exp/ma2c/model/''},
      trace = [], workers = []\<rparr>"

definition demo_train_args :: "string \<Rightarrow> string \<Rightarrow> args" where
  "demo_train_args mode config_path =
     \<lparr>base_dir = ''exp/ma2c'', option = ''train'', test_mode = mode,
      config_dir = config_path, agents = [], evaluation_policy_type = []\<rparr>"

definition demo_eval_args :: "string \<Rightarrow> args" where
  "demo_eval_args names =
     \<lparr>base_dir = ''exp'', option = ''evaluate'', test_mode = [], config_dir = [],
      agents = names, evaluation_policy_type = ''default''\<rparr>"

section \<open>The step counter\<close>

lemma advance_n_total: "total_step (advance_n n c) = total_step c"
  by (induction n arbitrary: c) (auto simp: advance_def)

lemma advance_n_cur:
  "0 \<le> cur_step c \<Longrightarrow> cur_step c \<le> total_step c \<Longrightarrow>
   cur_step (advance_n n c) = min (cur_step c + int n) (total_step c)"
  by (induction n arbitrary: c) (auto simp: advance_def)

lemma advance_steps_upto:
  "0 \<le> cur_step c \<Longrightarrow> cur_step c + int n \<le> total_step c \<Longrightarrow>
   advance_steps n c = [cur_step c + 1 .. cur_step c + int n]"
proof (induction n arbitrary: c)
  case 0
  then show ?case by simp
next
  case (Suc n)
  let ?c' = "snd (advance c)"
  from Suc.prems have neq: "cur_step c \<noteq> total_step c" by simp
  then have c': "cur_step ?c' = cur_step c + 1" "total_step ?c' = total_step c"
    and st: "fst (advance c) = cur_step c + 1"
    by (simp_all add: advance_def)
  have e: "cur_step ?c' + int n = cur_step c + int (Suc n)"
    using c' by simp
  from Suc.prems c' have "advance_steps n ?c' = [cur_step ?c' + 1 .. cur_step ?c' + int n]"
    by (intro Suc.IH) simp_all
  then have tl: "advance_steps n ?c' = [cur_step c + 1 + 1 .. cur_step c + int (Suc n)]"
    unfolding e unfolding c' .
  have "[cur_step c + 1 .. cur_step c + int (Suc n)]
          = (cur_step c + 1) # [cur_step c + 1 + 1 .. cur_step c + int (Suc n)]"
    by (rule upto_rec1) simp
  with tl st show ?case by simp
qed

text \<open>
  Claim C1. For a counter created with \<open>total_step > 0\<close>, after any number \<open>n\<close> of
  calls of \<open>advance\<close> the current step is \<open>min n total_step\<close>: it never exceeds
  \<open>total_step\<close>, which itself never changes, it saturates there, and it never decreases
  from fewer calls to more calls.
\<close>

theorem counter_saturates:
  assumes "0 < total_steps"
  shows "cur_step (advance_n n (Counter total_steps test_interval log_interval))
           = min (int n) total_steps
       \<and> cur_step (advance_n n (Counter total_steps test_interval log_interval))
           \<le> total_step (advance_n n (Counter total_steps test_interval log_interval))
       \<and> total_step (advance_n n (Counter total_steps test_interval log_interval)) = total_steps
       \<and> (m \<le> n \<longrightarrow>
            cur_step (advance_n m (Counter total_steps test_interval log_interval))
            \<le> cur_step (advance_n n (Counter total_steps test_interval log_interval)))"
  using assms by (auto simp add: advance_n_cur advance_n_total Counter_def)

theorem counter_saturates_witness:
  "(0::int) < 3 \<and> cur_step (advance_n 5 (Counter 3 2 1)) = 3
   \<and> cur_step (advance_n 2 (Counter 3 2 1)) = 2
   \<and> cur_step (advance_n 2 (Counter 3 2 1)) \<le> cur_step (advance_n 5 (Counter 3 2 1))"
  using counter_saturates [of 3 5 2 1 2] counter_saturates [of 3 2 2 1 2] by simp

text \<open>
  Claim C3. With positive intervals, \<open>should_log\<close> holds of a step exactly when the step
  is a multiple of the log interval, and \<open>should_test\<close> exactly when it is a multiple of
  the test interval. In a run with \<open>total_step = 100\<close>, \<open>test_interval = 20\<close> and
  \<open>log_interval = 10\<close> the steps that \<open>advance\<close> returns are 1 to 100; among them
  \<open>should_test\<close> holds at 20, 40, 60, 80 and 100 and nowhere else, and \<open>should_log\<close> at
  the multiples of 10 and nowhere else.
\<close>

theorem should_fire_iff:
  assumes "0 < log_step c" and "0 < test_step c"
  shows "should_log c step = Inr (step mod log_step c = 0)
       \<and> should_test c step = Inr (step mod test_step c = 0)
       \<and> advance_steps 100 (Counter 100 20 10) = [1..100]
       \<and> filter (\<lambda>s. should_test (Counter 100 20 10) s = Inr True) [1..100]
            = [20, 40, 60, 80, 100]
       \<and> filter (\<lambda>s. should_log (Counter 100 20 10) s = Inr True) [1..100]
            = [10, 20, 30, 40, 50, 60, 70, 80, 90, 100]"
proof -
  have a: "advance_steps 100 (Counter 100 20 10) = [1..100]"
    using advance_steps_upto [of "Counter 100 20 10" 100] by (simp add: Counter_def)
  have b: "filter (\<lambda>s. should_test (Counter 100 20 10) s = Inr True) [1..100]
            = [20, 40, 60, 80, 100]"
    by code_simp
  have c: "filter (\<lambda>s. should_log (Counter 100 20 10) s = Inr True) [1..100]
            = [10, 20, 30, 40, 50, 60, 70, 80, 90, 100]"
    by code_simp
  from assms a b c show ?thesis by (simp add: should_log_def should_test_def)
qed

theorem should_fire_iff_witness:
  "0 < log_step (Counter 100 20 10) \<and> 0 < test_step (Counter 100 20 10)
   \<and> should_log (Counter 100 20 10) 30 = Inr True
   \<and> should_test (Counter 100 20 10) 30 = Inr False
   \<and> should_test (Counter 100 20 10) 40 = Inr True"
  using should_fire_iff [of "Counter 100 20 10" 30] should_fire_iff [of "Counter 100 20 10" 40]
  by (simp add: Counter_def)

section \<open>Kinds of events\<close>

lemma is_training_event_simps [simp]:
  "is_training_event (TrainStep s)" "is_training_event (InLoopTest s)"
  "\<not> is_training_event (LogInfo m)" "\<not> is_training_event (LogError m)"
  "\<not> is_training_event (BindPort p)" "\<not> is_training_event (OfflineTest d)"
  "\<not> is_training_event (SaveModel d n)" "\<not> is_training_event (EvalOutput d ag)"
  "\<not> is_training_event (ThreadCreate i p)" "\<not> is_training_event (ThreadStart i)"
  "\<not> is_training_event (ThreadJoin i)"
  by (simp_all add: is_training_event_def)

lemma is_bind_port_simps [simp]:
  "is_bind_port (BindPort p)"
  "\<not> is_bind_port (TrainStep s)" "\<not> is_bind_port (InLoopTest s)"
  "\<not> is_bind_port (LogInfo m)" "\<not> is_bind_port (LogError m)"
  "\<not> is_bind_port (OfflineTest d)"
  "\<not> is_bind_port (SaveModel d n)" "\<not> is_bind_port (EvalOutput d ag)"
  "\<not> is_bind_port (ThreadCreate i q)" "\<not> is_bind_port (ThreadStart i)"
  "\<not> is_bind_port (ThreadJoin i)"
  by (simp_all add: is_bind_port_def)

lemma is_offline_test_simps [simp]:
  "is_offline_test (OfflineTest d)"
  "\<not> is_offline_test (TrainStep s)" "\<not> is_offline_test (InLoopTest s)"
  "\<not> is_offline_test (LogInfo m)" "\<not> is_offline_test (LogError m)"
  "\<not> is_offline_test (BindPort p)"
  "\<not> is_offline_test (SaveModel d' n)" "\<not> is_offline_test (EvalOutput d' ag)"
  "\<not> is_offline_test (ThreadCreate i p)" "\<not> is_offline_test (ThreadStart i)"
  "\<not> is_offline_test (ThreadJoin i)"
  by (simp_all add: is_offline_test_def)

lemma is_in_loop_test_simps [simp]:
  "is_in_loop_test (InLoopTest s)"
  "\<not> is_in_loop_test (TrainStep s)" "\<not> is_in_loop_test (OfflineTest d)"
  "\<not> is_in_loop_test (LogInfo m)" "\<not> is_in_loop_test (LogError m)"
  "\<not> is_in_loop_test (BindPort p)"
  "\<not> is_in_loop_test (SaveModel d' n)" "\<not> is_in_loop_test (EvalOutput d' ag)"
  "\<not> is_in_loop_test (ThreadCreate i p)" "\<not> is_in_loop_test (ThreadStart i)"
  "\<not> is_in_loop_test (ThreadJoin i)"
  by (simp_all add: is_in_loop_test_def)

lemma is_output_simps [simp]:
  "is_output (EvalOutput d ag)"
  "\<not> is_output (TrainStep s)" "\<not> is_output (OfflineTest d)"
  "\<not> is_output (LogInfo m)" "\<not> is_output (LogError m)"
  "\<not> is_output (BindPort p)" "\<not> is_output (InLoopTest s)"
  "\<not> is_output (SaveModel d' n)"
  "\<not> is_output (ThreadCreate i p)" "\<not> is_output (ThreadStart i)"
  "\<not> is_output (ThreadJoin i)"
  by (simp_all add: is_output_def)

lemma is_log_error_simps [simp]:
  "is_log_error (LogError m)"
  "\<not> is_log_error (TrainStep s)" "\<not> is_log_error (OfflineTest d)"
  "\<not> is_log_error (LogInfo m)" "\<not> is_log_error (EvalOutput d ag)"
  "\<not> is_log_error (BindPort p)" "\<not> is_log_error (InLoopTest s)"
  "\<not> is_log_error (SaveModel d' n)"
  "\<not> is_log_error (ThreadCreate i p)" "\<not> is_log_error (ThreadStart i)"
  "\<not> is_log_error (ThreadJoin i)"
  by (simp_all add: is_log_error_def)

lemma training_events_filters:
  "list_all is_training_event new \<Longrightarrow>
   filter is_bind_port new = [] \<and> filter is_offline_test new = []
   \<and> filter is_output new = [] \<and> filter is_log_error new = []"
  by (induction new) (auto simp: is_training_event_def split: event.splits)

section \<open>The evaluation harness\<close>

lemma py_split_nonempty: "py_split sep s \<noteq> []"
  by (induction s) (auto split: list.splits)

lemma run_target_disk: "disk w = disk w' \<Longrightarrow> run_target t w = run_target t w'"
  by (simp add: run_target_def disk_def)

lemma w_port_run_target: "w_port (run_target t w) = t_port t"
  by (simp add: run_target_def split: prod.splits)

lemma start_threads_eq:
  "start_threads base out pol i ags w =
     (Inr (map (thread_for base out pol) (enumerate i ags)),
      w\<lparr>trace := trace w @ concat (map (\<lambda>p. [ThreadCreate (fst p) (int (fst p)), ThreadStart (fst p)])
                                     (enumerate i ags)),
        workers := workers w @ map (\<lambda>p. run_target (thread_for base out pol p) (disk w))
                                  (enumerate i ags)\<rparr>)"
proof (induction ags arbitrary: i w)
  case Nil
  then show ?case by (simp add: return_def)
next
  case (Cons agent rest)
  let ?t = "thread_for base out pol (i, agent)"
  let ?w1 = "w\<lparr>trace := trace w @ [ThreadCreate i (int i)]\<rparr>"
  let ?w2 = "?w1\<lparr>trace := trace ?w1 @ [ThreadStart i], workers := workers ?w1 @ [run_target ?t ?w1]\<rparr>"
  have d: "disk ?w2 = disk w" "disk ?w1 = disk w" by (simp_all add: disk_def)
  have r: "run_target ?t ?w1 = run_target ?t (disk w)"
    by (rule run_target_disk) (simp add: disk_def)
  have step: "start_threads base out pol i (agent # rest) w =
      (case start_threads base out pol (Suc i) rest ?w2 of
         (Inl e, w') \<Rightarrow> (Inl e, w')
       | (Inr ts, w') \<Rightarrow> (Inr (?t # ts), w'))"
    by (simp add: bind_def Thread_def start_def return_def thread_for_def split: prod.splits sum.splits)
  show ?case
    unfolding step Cons.IH d
    by (simp add: r)
qed

lemma join_threads_eq:
  "join_threads ts w = (Inr (), w\<lparr>trace := trace w @ map (\<lambda>t. ThreadJoin (t_index t)) ts\<rparr>)"
  by (induction ts arbitrary: w) (simp_all add: return_def bind_def join_def emit_def)


lemma evaluate_eq:
  "evaluate a w =
     (Inr (),
      w\<lparr>fs_dirs := fs_dirs w \<union> {role_path (base_dir a) ''eva_data'', role_path (base_dir a) ''eva_log''},
        trace := trace w
          @ [LogInfo (''Evaluation: policy type: '' @ evaluation_policy_type a)]
          @ concat (map (\<lambda>p. [ThreadCreate (fst p) (int (fst p)), ThreadStart (fst p)])
                      (enumerate 0 (py_split CHR '','' (agents a))))
          @ map (\<lambda>p. ThreadJoin (fst p)) (enumerate 0 (py_split CHR '','' (agents a))),
        workers := workers w
          @ map (\<lambda>p. run_target
                        (thread_for (base_dir a) (role_path (base_dir a) ''eva_data'')
                           (evaluation_policy_type a) p)
                        (disk (w\<lparr>fs_dirs := fs_dirs w \<union> {role_path (base_dir a) ''eva_data'',
                                                          role_path (base_dir a) ''eva_log''}\<rparr>)))
              (enumerate 0 (py_split CHR '','' (agents a)))\<rparr>)"
  by (simp add: evaluate_def bind_def init_dir_def lift_def getitem_def init_log_def return_def
      emit_def start_threads_eq join_threads_eq disk_def thread_for_def comp_def)

section \<open>The training loop\<close>

lemma Trainer_run_no_test:
  "\<not> in_test \<Longrightarrow>
   Trainer_run in_test c w =
     (Inr (c\<lparr>cur_step := max (cur_step c) (total_step c)\<rparr>),
      w\<lparr>trace := trace w @ map TrainStep [cur_step c + 1 .. total_step c]\<rparr>)"
proof (induction in_test c w rule: Trainer_run.induct)
  case (1 in_test c w)
  show ?case
  proof (cases "is_done c")
    case True
    then show ?thesis
      by (subst Trainer_run.simps) (simp add: is_done_def max_def)
  next
    case False
    then have lt: "cur_step c < total_step c" by (simp add: is_done_def)
    let ?c' = "snd (advance c)"
    let ?w' = "w\<lparr>trace := trace w @ [TrainStep (fst (advance c))]\<rparr>"
    have adv: "fst (advance c) = cur_step c + 1" "?c' = c\<lparr>cur_step := cur_step c + 1\<rparr>"
      using lt by (simp_all add: advance_def)
    have ih: "Trainer_run in_test ?c' ?w' =
       (Inr (?c'\<lparr>cur_step := max (cur_step ?c') (total_step ?c')\<rparr>),
        ?w'\<lparr>trace := trace ?w' @ map TrainStep [cur_step ?c' + 1 .. total_step ?c']\<rparr>)"
      using "1.IH"(3) [OF False refl refl refl] "1.prems" by simp
    have up: "[cur_step c + 1 .. total_step c] = (cur_step c + 1) # [cur_step c + 1 + 1 .. total_step c]"
      using lt by (intro upto_rec1) simp
    have "Trainer_run in_test c w = Trainer_run in_test ?c' ?w'"
      using False "1.prems" by (subst Trainer_run.simps) (simp add: Let_def)
    also note ih
    finally show ?thesis
      using lt by (simp add: adv up max_def)
  qed
qed

lemma Trainer_run_done:
  "Trainer_run in_test c w = (Inr c', w') \<Longrightarrow> is_done c'"
proof (induction in_test c w rule: Trainer_run.induct)
  case (1 in_test c w)
  show ?case
  proof (cases "is_done c")
    case True
    with "1.prems" show ?thesis by (subst (asm) Trainer_run.simps) simp
  next
    case False
    with "1.prems" "1.IH" show ?thesis
      by (subst (asm) Trainer_run.simps) (auto simp: Let_def split: if_splits sum.splits)
  qed
qed

lemma Trainer_run_events:
  "\<exists>new. snd (Trainer_run in_test c w) = w\<lparr>trace := trace w @ new\<rparr>
     \<and> list_all is_training_event new"
proof (induction in_test c w rule: Trainer_run.induct)
  case (1 in_test c w)
  show ?case
  proof (cases "is_done c")
    case True
    then have "snd (Trainer_run in_test c w) = w\<lparr>trace := trace w @ []\<rparr>"
      by (subst Trainer_run.simps) simp
    then show ?thesis by (intro exI [of _ "[]"]) simp
  next
    case False
    let ?step = "fst (advance c)"
    let ?c' = "snd (advance c)"
    let ?w' = "w\<lparr>trace := trace w @ [TrainStep ?step]\<rparr>"
    let ?w'' = "?w'\<lparr>trace := trace ?w' @ [InLoopTest ?step]\<rparr>"
    consider (err) e where "in_test" "should_test ?c' ?step = Inl e"
      | (fire) "in_test" "should_test ?c' ?step = Inr True"
      | (quiet) "in_test" "should_test ?c' ?step = Inr False"
      | (off) "\<not> in_test"
      by (cases "should_test ?c' ?step") auto
    then show ?thesis
    proof cases
      case err
      with False have "snd (Trainer_run in_test c w) = w\<lparr>trace := trace w @ [TrainStep ?step]\<rparr>"
        by (subst Trainer_run.simps) (simp add: Let_def)
      then show ?thesis
        by (intro exI [of _ "[TrainStep ?step]"]) simp
    next
      case fire
      from "1.IH"(1) [OF False refl refl refl fire(1) fire(2)]
      obtain new where n: "snd (Trainer_run in_test ?c' ?w'') = ?w''\<lparr>trace := trace ?w'' @ new\<rparr>"
        "list_all is_training_event new" by auto
      from False fire have "Trainer_run in_test c w = Trainer_run in_test ?c' ?w''"
        by (subst Trainer_run.simps) (simp add: Let_def)
      with n show ?thesis
        by (intro exI [of _ "TrainStep ?step # InLoopTest ?step # new"])
           simp
    next
      case quiet
      from "1.IH"(2) [OF False refl refl refl quiet(1) quiet(2)]
      obtain new where n: "snd (Trainer_run in_test ?c' ?w') = ?w'\<lparr>trace := trace ?w' @ new\<rparr>"
        "list_all is_training_event new" by auto
      from False quiet have "Trainer_run in_test c w = Trainer_run in_test ?c' ?w'"
        by (subst Trainer_run.simps) (simp add: Let_def)
      with n show ?thesis
        by (intro exI [of _ "TrainStep ?step # new"]) simp
    next
      case off
      from "1.IH"(3) [OF False refl refl refl off]
      obtain new where n: "snd (Trainer_run in_test ?c' ?w') = ?w'\<lparr>trace := trace ?w' @ new\<rparr>"
        "list_all is_training_event new" by auto
      from False off have "Trainer_run in_test c w = Trainer_run in_test ?c' ?w'"
        by (subst Trainer_run.simps) (simp add: Let_def)
      with n show ?thesis
        by (intro exI [of _ "TrainStep ?step # new"]) simp
    qed
  qed
qed

lemma new_events_append [simp]: "new_events w (w'\<lparr>trace := trace w @ xs\<rparr>) = xs"
  by (simp add: new_events_def)

lemma evaluate_fn_no_dir:
  "agent_dir \<notin> fs_dirs w \<Longrightarrow>
   evaluate_fn agent_dir out port pol w =
     (Inr (), w\<lparr>trace := trace w @
        [LogError (''Evaluation: '' @ last (py_split CHR ''/'' agent_dir) @ '' does not exist!'')]\<rparr>)"
  by (simp add: evaluate_fn_def Let_def bind_def check_dir_def emit_def)

lemma evaluate_fn_no_config:
  "agent_dir \<in> fs_dirs w \<Longrightarrow>
   filter (in_dir (agent_dir @ ''/data/'')) (map fst (fs_files w)) = [] \<Longrightarrow>
   evaluate_fn agent_dir out port pol w =
     (Inr (), w\<lparr>trace := trace w @
        [LogError (''Cannot find config file in '' @ agent_dir @ ''/data/'')]\<rparr>)"
  by (simp add: evaluate_fn_def Let_def bind_def check_dir_def find_file_def return_def)

lemma evaluate_fn_no_model:
  "agent_dir \<in> fs_dirs w \<Longrightarrow>
   filter (in_dir (agent_dir @ ''/data/'')) (map fst (fs_files w)) = path # others \<Longrightarrow>
   map_of (fs_files w) path = Some (IniFile config) \<Longrightarrow>
   map_of config ''ENV_CONFIG'' = Some env_config \<Longrightarrow>
   map_of config ''MODEL_CONFIG'' = Some model_config \<Longrightarrow>
   agent_dir @ ''/model/'' \<notin> fs_models w \<Longrightarrow>
   evaluate_fn agent_dir out port pol w =
     (Inr (), w\<lparr>trace := trace w @
        [BindPort port, LogInfo ''Evaluation: s dim, a dim, s dim ls, a dim ls'',
         LogError (''Cannot load model from '' @ agent_dir @ ''/model/'')]\<rparr>)"
  by (simp add: evaluate_fn_def Let_def bind_def check_dir_def find_file_def return_def read_config_def
      lift_def getitem_def init_env_def or_default_def RealNetEnv_def emit_def load_def)

lemma new_events_self [simp]: "new_events w w = []"
  by (simp add: new_events_def)

lemma evaluate_fn_cases:
  "snd (evaluate_fn agent_dir out port pol w)
     = w\<lparr>trace := trace w @ new_events w (snd (evaluate_fn agent_dir out port pol w))\<rparr> \<and>
   ((fst (evaluate_fn agent_dir out port pol w) = Inr ()
       \<and> filter is_output (new_events w (snd (evaluate_fn agent_dir out port pol w)))
           = [EvalOutput out (last (py_split CHR ''/'' agent_dir))])
    \<or> (fst (evaluate_fn agent_dir out port pol w) = Inr ()
       \<and> filter is_output (new_events w (snd (evaluate_fn agent_dir out port pol w))) = []
       \<and> filter is_log_error (new_events w (snd (evaluate_fn agent_dir out port pol w))) \<noteq> [])
    \<or> (fst (evaluate_fn agent_dir out port pol w) \<noteq> Inr ()
       \<and> filter is_output (new_events w (snd (evaluate_fn agent_dir out port pol w))) = []
       \<and> filter is_log_error (new_events w (snd (evaluate_fn agent_dir out port pol w))) = []))"
  by (simp add: evaluate_fn_def Let_def bind_def check_dir_def find_file_def return_def read_config_def
      lift_def getitem_def init_env_def or_default_def RealNetEnv_def emit_def load_def Evaluator_run_def
      split: list.splits option.splits disk_file.splits)


lemma run_target_fields [simp]:
  "w_agent_dir (run_target t w) = t_agent_dir t"
  "w_output_dir (run_target t w) = t_output_dir t"
  "w_policy_type (run_target t w) = t_policy_type t"
  "w_outcome (run_target t w) =
     fst (evaluate_fn (t_agent_dir t) (t_output_dir t) (t_port t) (t_policy_type t) (disk w))"
  "w_trace (run_target t w) =
     trace (snd (evaluate_fn (t_agent_dir t) (t_output_dir t) (t_port t) (t_policy_type t) (disk w)))"
  by (simp_all add: run_target_def disk_def split: prod.splits)

lemma run_target_cases:
  "(w_outcome (run_target t w) = Inr ()
      \<and> filter is_output (w_trace (run_target t w))
          = [EvalOutput (t_output_dir t) (last (py_split CHR ''/'' (t_agent_dir t)))])
   \<or> (w_outcome (run_target t w) = Inr ()
      \<and> filter is_output (w_trace (run_target t w)) = []
      \<and> filter is_log_error (w_trace (run_target t w)) \<noteq> [])
   \<or> (w_outcome (run_target t w) \<noteq> Inr ()
      \<and> filter is_output (w_trace (run_target t w)) = []
      \<and> filter is_log_error (w_trace (run_target t w)) = [])"
proof -
  let ?F = "evaluate_fn (t_agent_dir t) (t_output_dir t) (t_port t) (t_policy_type t) (disk w)"
  have "trace (disk w) = []" by (simp add: disk_def)
  moreover have "snd ?F = (disk w)\<lparr>trace := trace (disk w) @ new_events (disk w) (snd ?F)\<rparr>"
    using evaluate_fn_cases [of "t_agent_dir t" "t_output_dir t" "t_port t" "t_policy_type t" "disk w"]
    by blast
  ultimately have "trace (snd ?F) = new_events (disk w) (snd ?F)"
    by (metis append_Nil new_events_append new_events_def drop0 list.size(3))
  then show ?thesis
    using evaluate_fn_cases [of "t_agent_dir t" "t_output_dir t" "t_port t" "t_policy_type t" "disk w"]
    by simp
qed

lemma map_fst_of_enumerate:
  "map (\<lambda>p. f (fst p)) (enumerate 0 xs) = map f [0..<length xs]"
proof -
  have "map (\<lambda>p. f (fst p)) ys = map f (map fst ys)" for ys :: "(nat \<times> 'b) list"
    by (induction ys) simp_all
  then have "map (\<lambda>p. f (fst p)) (enumerate 0 xs) = map f (map fst (enumerate 0 xs))" .
  then show ?thesis by (simp only: map_fst_enumerate add_0)
qed

lemma map_snd_of_enumerate:
  "map (\<lambda>p. f (snd p)) (enumerate 0 xs) = map f xs"
proof -
  have "map (\<lambda>p. f (snd p)) ys = map f (map snd ys)" for ys :: "(nat \<times> 'b) list"
    by (induction ys) simp_all
  then have "map (\<lambda>p. f (snd p)) (enumerate 0 xs) = map f (map snd (enumerate 0 xs))" .
  then show ?thesis by (simp only: map_snd_enumerate)
qed

lemma enumerate_threads:
  "concat (map (\<lambda>p. [ThreadCreate (fst p) (int (fst p)), ThreadStart (fst p)]) (enumerate 0 ags))
     = concat (map (\<lambda>i. [ThreadCreate i (int i), ThreadStart i]) [0..<length ags])"
  "map (\<lambda>p. ThreadJoin (fst p)) (enumerate 0 ags) = map ThreadJoin [0..<length ags]"
  using map_fst_of_enumerate [of "\<lambda>i. [ThreadCreate i (int i), ThreadStart i]" ags]
        map_fst_of_enumerate [of ThreadJoin ags]
  by simp_all

lemma evaluate_new_events:
  "new_events w (snd (evaluate a w)) =
     [LogInfo (''Evaluation: policy type: '' @ evaluation_policy_type a)]
     @ concat (map (\<lambda>i. [ThreadCreate i (int i), ThreadStart i])
                 [0..<length (py_split CHR '','' (agents a))])
     @ map ThreadJoin [0..<length (py_split CHR '','' (agents a))]"
  by (simp add: evaluate_eq new_events_def enumerate_threads)

lemma evaluate_new_workers:
  "new_workers w (snd (evaluate a w)) =
     map (\<lambda>p. run_target
                 (thread_for (base_dir a) (role_path (base_dir a) ''eva_data'')
                    (evaluation_policy_type a) p)
                 (disk (w\<lparr>fs_dirs := fs_dirs w \<union> {role_path (base_dir a) ''eva_data'',
                                                   role_path (base_dir a) ''eva_log''}\<rparr>)))
       (enumerate 0 (py_split CHR '','' (agents a)))"
  by (simp add: evaluate_eq new_workers_def)

lemma evaluate_ports:
  "map w_port (new_workers w (snd (evaluate a w)))
     = map int [0..<length (py_split CHR '','' (agents a))]"
proof -
  have "map w_port (new_workers w (snd (evaluate a w)))
      = map (\<lambda>p. int (fst p)) (enumerate 0 (py_split CHR '','' (agents a)))"
    by (simp add: evaluate_new_workers w_port_run_target thread_for_def comp_def)
  then show ?thesis by (simp only: map_fst_of_enumerate)
qed

text \<open>
  Claim C4, as amended. For every requested agent list the harness creates the thread of
  the agent at position \<open>i\<close> with port \<open>i\<close> and starts it at once, agent by agent
  in list order, and joins the threads only after all are started. The port of a worker
  is thus fixed before that worker starts, and the ports of the workers are pairwise
  distinct.
\<close>

theorem ports_by_position:
  "map w_port (new_workers w (snd (evaluate a w)))
     = map int [0..<length (py_split CHR '','' (agents a))]
   \<and> map w_agent_dir (new_workers w (snd (evaluate a w)))
     = map (\<lambda>agent. base_dir a @ ''/'' @ agent) (py_split CHR '','' (agents a))
   \<and> distinct (map w_port (new_workers w (snd (evaluate a w))))
   \<and> new_events w (snd (evaluate a w)) =
       [LogInfo (''Evaluation: policy type: '' @ evaluation_policy_type a)]
       @ concat (map (\<lambda>i. [ThreadCreate i (int i), ThreadStart i])
                   [0..<length (py_split CHR '','' (agents a))])
       @ map ThreadJoin [0..<length (py_split CHR '','' (agents a))]"
proof -
  have d: "distinct (map int [0..<length (py_split CHR '','' (agents a))])"
    by (simp add: distinct_map inj_on_def)
  have "map w_agent_dir (new_workers w (snd (evaluate a w)))
     = map (\<lambda>p. (\<lambda>agent. base_dir a @ ''/'' @ agent) (snd p))
         (enumerate 0 (py_split CHR '','' (agents a)))"
    by (simp add: evaluate_new_workers thread_for_def comp_def)
  then have ad: "map w_agent_dir (new_workers w (snd (evaluate a w)))
     = map (\<lambda>agent. base_dir a @ ''/'' @ agent) (py_split CHR '','' (agents a))"
    using map_snd_of_enumerate [of "\<lambda>agent. base_dir a @ ''/'' @ agent"
                                   "py_split CHR '','' (agents a)"]
    by simp
  show ?thesis
    using d ad by (simp add: evaluate_ports evaluate_new_events)
qed

text \<open>
  Claim C4, as stated, says that the ports are assigned before any worker starts. With
  the two agents \<open>a\<close> and \<open>b\<close> the first worker is started before the thread of the
  second is created with its port.
\<close>

theorem ports_before_any_start_counterexample:
  "trace (snd (evaluate (demo_eval_args ''a,b'') demo_world)) =
     [LogInfo ''Evaluation: policy type: default'',
      ThreadCreate 0 0, ThreadStart 0, ThreadCreate 1 1, ThreadStart 1,
      ThreadJoin 0, ThreadJoin 1]
   \<and> \<not> ports_assigned_before_any_start
         (trace (snd (evaluate (demo_eval_args ''a,b'') demo_world)))"
  by (simp add: evaluate_eq demo_eval_args_def demo_world_def enumerate_eq_zip
      ports_assigned_before_any_start_def is_thread_create_def is_thread_start_def upt_rec)

text \<open>
  Claim C5, as amended. For every agent list the harness starts one worker per agent
  and then joins every worker; it returns normally whatever the workers did. Each
  worker is the run of its own task on the disk, so no worker depends on another one. A
  worker either writes the output keyed by its agent, or returns early without output
  after logging an error, or dies from an exception without output and without a log
  entry.
\<close>

theorem harness_completion:
  "fst (evaluate a w) = Inr ()
   \<and> new_events w (snd (evaluate a w)) =
       [LogInfo (''Evaluation: policy type: '' @ evaluation_policy_type a)]
       @ concat (map (\<lambda>i. [ThreadCreate i (int i), ThreadStart i])
                   [0..<length (py_split CHR '','' (agents a))])
       @ map ThreadJoin [0..<length (py_split CHR '','' (agents a))]
   \<and> new_workers w (snd (evaluate a w)) =
       map (\<lambda>p. run_target
                   (thread_for (base_dir a) (role_path (base_dir a) ''eva_data'')
                      (evaluation_policy_type a) p)
                   (disk (w\<lparr>fs_dirs := fs_dirs w \<union> {role_path (base_dir a) ''eva_data'',
                                                     role_path (base_dir a) ''eva_log''}\<rparr>)))
         (enumerate 0 (py_split CHR '','' (agents a)))
   \<and> (\<forall>wk \<in> set (new_workers w (snd (evaluate a w))).
         (w_outcome wk = Inr ()
            \<and> filter is_output (w_trace wk)
                = [EvalOutput (w_output_dir wk) (last (py_split CHR ''/'' (w_agent_dir wk)))])
       \<or> (w_outcome wk = Inr ()
            \<and> filter is_output (w_trace wk) = []
            \<and> filter is_log_error (w_trace wk) \<noteq> [])
       \<or> (w_outcome wk \<noteq> Inr ()
            \<and> filter is_output (w_trace wk) = []
            \<and> filter is_log_error (w_trace wk) = []))"
proof -
  have ok: "fst (evaluate a w) = Inr ()" by (simp add: evaluate_eq)
  have each: "(w_outcome wk = Inr ()
            \<and> filter is_output (w_trace wk)
                = [EvalOutput (w_output_dir wk) (last (py_split CHR ''/'' (w_agent_dir wk)))])
       \<or> (w_outcome wk = Inr ()
            \<and> filter is_output (w_trace wk) = []
            \<and> filter is_log_error (w_trace wk) \<noteq> [])
       \<or> (w_outcome wk \<noteq> Inr ()
            \<and> filter is_output (w_trace wk) = []
            \<and> filter is_log_error (w_trace wk) = [])"
    if "wk \<in> set (new_workers w (snd (evaluate a w)))" for wk
  proof -
    from that obtain t w0 where wk: "wk = run_target t w0"
      unfolding evaluate_new_workers by auto
    show ?thesis
      using run_target_cases [of t w0] unfolding wk
      by (simp only: run_target_fields(1,2))
  qed
  from ok each show ?thesis
    using evaluate_new_events [of w a] evaluate_new_workers [of w a] by blast
qed

lemmas demo_eval =
  evaluate_eq new_workers_def demo_eval_args_def demo_world_def enumerate_eq_zip upt_rec
  run_target_def disk_def thread_for_def role_path_def
  evaluate_fn_def Let_def bind_def check_dir_def find_file_def in_dir_def return_def
  read_config_def lift_def getitem_def init_env_def or_default_def RealNetEnv_def emit_def
  load_def Evaluator_run_def MA2C_def demo_config_def

theorem harness_completion_witness:
  "fst (evaluate (demo_eval_args ''naive,ma2c,broken'') demo_world) = Inr ()
   \<and> map w_outcome (new_workers demo_world
         (snd (evaluate (demo_eval_args ''naive,ma2c,broken'') demo_world)))
       = [Inr (), Inr (), Inl (KeyError ''ENV_CONFIG'')]
   \<and> map w_trace (new_workers demo_world
         (snd (evaluate (demo_eval_args ''naive,ma2c,broken'') demo_world)))
       = [[LogError ''Evaluation: naive does not exist!''],
          [BindPort 1, LogInfo ''Evaluation: s dim, a dim, s dim ls, a dim ls'',
           EvalOutput ''exp/eva_data'' ''ma2c''],
          []]"
  using harness_completion [of "demo_eval_args ''naive,ma2c,broken''" demo_world]
  by (simp add: demo_eval)

text \<open>
  Claim C5, as stated, says that a failed worker is seen as missing output plus a logged
  error. The worker for the agent \<open>broken\<close>, whose configuration snapshot has no
  \<open>ENV_CONFIG\<close> section, dies from the \<open>KeyError\<close>: the harness returns normally, the
  worker has written no output, and nothing was logged.
\<close>

theorem failed_worker_logged_counterexample:
  "fst (evaluate (demo_eval_args ''broken'') demo_world) = Inr ()
   \<and> map w_outcome (new_workers demo_world (snd (evaluate (demo_eval_args ''broken'') demo_world)))
       = [Inl (KeyError ''ENV_CONFIG'')]
   \<and> map w_trace (new_workers demo_world (snd (evaluate (demo_eval_args ''broken'') demo_world)))
       = [[]]"
  by (simp add: demo_eval)

text \<open>
  Claim C6. Each of the three failures of a per-agent task ends that task with a normal
  return after an error was logged: a missing agent directory (logged by the task
  itself), no configuration file in the data subdirectory and a model that cannot be
  loaded (both logged by the helper that finds the failure). Nothing else happens in the
  task after the failure; in particular no output is written. The harness returns
  normally, and every worker is the run of its own task on the disk, so that the failure
  of one task leaves the others as they are.
\<close>

theorem task_failures_contained:
  "(agent_dir \<notin> fs_dirs w \<longrightarrow>
      evaluate_fn agent_dir out port pol w =
        (Inr (), w\<lparr>trace := trace w @
           [LogError (''Evaluation: '' @ last (py_split CHR ''/'' agent_dir)
                        @ '' does not exist!'')]\<rparr>))
   \<and> (agent_dir \<in> fs_dirs w
        \<and> filter (in_dir (agent_dir @ ''/data/'')) (map fst (fs_files w)) = [] \<longrightarrow>
      evaluate_fn agent_dir out port pol w =
        (Inr (), w\<lparr>trace := trace w @
           [LogError (''Cannot find config file in '' @ agent_dir @ ''/data/'')]\<rparr>))
   \<and> (agent_dir \<in> fs_dirs w
        \<and> filter (in_dir (agent_dir @ ''/data/'')) (map fst (fs_files w)) = path # others
        \<and> map_of (fs_files w) path = Some (IniFile config)
        \<and> map_of config ''ENV_CONFIG'' = Some env_config
        \<and> map_of config ''MODEL_CONFIG'' = Some model_config
        \<and> agent_dir @ ''/model/'' \<notin> fs_models w \<longrightarrow>
      evaluate_fn agent_dir out port pol w =
        (Inr (), w\<lparr>trace := trace w @
           [BindPort port, LogInfo ''Evaluation: s dim, a dim, s dim ls, a dim ls'',
            LogError (''Cannot load model from '' @ agent_dir @ ''/model/'')]\<rparr>))
   \<and> fst (evaluate a w) = Inr ()
   \<and> new_workers w (snd (evaluate a w)) =
       map (\<lambda>p. run_target
                   (thread_for (base_dir a) (role_path (base_dir a) ''eva_data'')
                      (evaluation_policy_type a) p)
                   (disk (w\<lparr>fs_dirs := fs_dirs w \<union> {role_path (base_dir a) ''eva_data'',
                                                     role_path (base_dir a) ''eva_log''}\<rparr>)))
         (enumerate 0 (py_split CHR '','' (agents a)))"
proof -
  have "fst (evaluate a w) = Inr ()" by (simp add: evaluate_eq)
  then show ?thesis
    using evaluate_fn_no_dir [of agent_dir w out port pol]
      evaluate_fn_no_config [of agent_dir w out port pol]
      evaluate_fn_no_model [of agent_dir w path others config env_config model_config out port pol]
      evaluate_new_workers [of w a]
    by blast
qed

theorem task_failures_contained_witness:
  "''exp/naive'' \<notin> fs_dirs demo_world
   \<and> evaluate_fn ''exp/naive'' ''exp/eva_data'' 0 ''default'' demo_world =
       (Inr (), demo_world\<lparr>trace := [LogError ''Evaluation: naive does not exist!'']\<rparr>)
   \<and> ''exp/empty'' \<in> fs_dirs demo_world
   \<and> evaluate_fn ''exp/empty'' ''exp/eva_data'' 1 ''default'' demo_world =
       (Inr (), demo_world\<lparr>trace := [LogError ''Cannot find config file in exp/empty/data/'']\<rparr>)
   \<and> ''exp/untrained'' \<in> fs_dirs demo_world
   \<and> ''exp/untrained/model/'' \<notin> fs_models demo_world
   \<and> evaluate_fn ''exp/untrained'' ''exp/eva_data'' 2 ''default'' demo_world =
       (Inr (), demo_world\<lparr>trace :=
          [BindPort 2, LogInfo ''Evaluation: s dim, a dim, s dim ls, a dim ls'',
           LogError ''Cannot load model from exp/untrained/model/'']\<rparr>)
   \<and> map (\<lambda>wk. (w_outcome wk, filter is_output (w_trace wk)))
       (new_workers demo_world
          (snd (evaluate (demo_eval_args ''naive,empty,untrained,ma2c'') demo_world)))
     = [(Inr (), []), (Inr (), []), (Inr (), []),
        (Inr (), [EvalOutput ''exp/eva_data'' ''ma2c''])]"
  using
    task_failures_contained [of "''exp/naive''" demo_world "''exp/eva_data''" 0 "''default''"
       "''''" "[]" "[]" "[]" "[]" "demo_eval_args ''naive,empty,untrained,ma2c''"]
    task_failures_contained [of "''exp/empty''" demo_world "''exp/eva_data''" 1 "''default''"
       "''''" "[]" "[]" "[]" "[]" "demo_eval_args ''naive,empty,untrained,ma2c''"]
    task_failures_contained [of "''exp/untrained''" demo_world "''exp/eva_data''" 2 "''default''"
       "''exp/untrained/data/run.ini''" "[]" demo_config "[(''seed'', ''42'')]" "[]"
       "demo_eval_args ''naive,empty,untrained,ma2c''"]
  by (simp add: demo_eval)

section \<open>The training run\<close>

lemma bind_resultE:
  assumes "bind m f w = (r, w')"
    and "\<And>x w1. m w = (Inr x, w1) \<Longrightarrow> f x w1 = (r, w') \<Longrightarrow> P"
    and "\<And>e. m w = (Inl e, w') \<Longrightarrow> r = Inl e \<Longrightarrow> P"
  shows P
  using assms by (auto simp: bind_def split: prod.splits sum.splits)

lemma bind_prod_resultE:
  assumes "bind m (\<lambda>(x, y). f x y) w = (r, w')"
    and "\<And>x y w1. m w = (Inr (x, y), w1) \<Longrightarrow> f x y w1 = (r, w') \<Longrightarrow> P"
    and "\<And>e. m w = (Inl e, w') \<Longrightarrow> r = Inl e \<Longrightarrow> P"
  shows P
  using assms by (auto simp: bind_def split: prod.splits sum.splits)

lemma Trainer_run_trace:
  "Trainer_run in_test c w = (r, w') \<Longrightarrow>
   \<exists>new. w' = w\<lparr>trace := trace w @ new\<rparr> \<and> list_all is_training_event new"
  using Trainer_run_events [of in_test c w] by simp

lemmas step_defs =
  init_dir_def lift_def getitem_def default_pathes_def init_log_def
  return_def copy_file_def read_config_def init_env_def or_default_def RealNetEnv_def
  emit_def run_offline_def save_def bind_def

lemma train_dirs:
  assumes "train rt a w = (r, w')"
  shows "fs_dirs w' = fs_dirs w \<union> {role_path (base_dir a) ''log'',
           role_path (base_dir a) ''data'', role_path (base_dir a) ''model''}"
  using assms unfolding train_def
  apply -
  apply ((erule bind_prod_resultE | erule bind_resultE)+)
  apply (auto simp: step_defs dest!: Trainer_run_trace
      split: if_splits option.splits disk_file.splits)
  done

lemma train_trace_shape:
  assumes "train rt a w = (r, w')"
  shows "new_events w w' = []
       \<or> (\<exists>rest. new_events w w' =
             [BindPort 1, LogInfo ''Training: s dim, a dim, s dim ls, a dim ls''] @ rest
           \<and> filter is_bind_port rest = [])"
  using assms unfolding train_def
  apply -
  apply ((erule bind_prod_resultE | erule bind_resultE)+)
  apply (auto simp: step_defs new_events_def training_events_filters dest!: Trainer_run_trace
      split: if_splits option.splits disk_file.splits)
  done


lemma train_run_eq:
  assumes "map_of (fs_files w) (config_dir a) = Some (IniFile config)"
    and "init_test_flag (test_mode a) = Inr (in_test, post_test)"
    and "map_of config ''ENV_CONFIG'' = Some env_config"
    and "int_getfloat rt config ''TRAIN_CONFIG'' ''total_step'' = Inr tot"
    and "int_getfloat rt config ''TRAIN_CONFIG'' ''test_interval'' = Inr ts"
    and "int_getfloat rt config ''TRAIN_CONFIG'' ''log_interval'' = Inr ls"
    and "getint rt config ''ENV_CONFIG'' ''seed'' = Inr seed"
    and "map_of config ''MODEL_CONFIG'' = Some model_config"
  shows "train rt a w =
     (case Trainer_run in_test (Counter tot ts ls) (train_start a (IniFile config) w) of
        (Inl e, w2) \<Rightarrow> (Inl e, w2)
      | (Inr c', w2) \<Rightarrow>
          (Inr (),
           w2\<lparr>trace := trace w2
             @ (if post_test then [OfflineTest (role_path (base_dir a) ''data'')] else [])
             @ [LogInfo ''Training: save final model at step'',
                SaveModel (role_path (base_dir a) ''model'') (cur_step c')]\<rparr>))"
  using assms
  by (simp add: train_def step_defs train_start_def insert_commute
      split: prod.splits sum.splits)

lemma train_Inr_conditions:
  assumes "train rt a w = (Inr (), w')"
  shows "\<exists>config in_test post_test env_config tot ts ls seed model_config.
      map_of (fs_files w) (config_dir a) = Some (IniFile config)
    \<and> init_test_flag (test_mode a) = Inr (in_test, post_test)
    \<and> map_of config ''ENV_CONFIG'' = Some env_config
    \<and> int_getfloat rt config ''TRAIN_CONFIG'' ''total_step'' = Inr tot
    \<and> int_getfloat rt config ''TRAIN_CONFIG'' ''test_interval'' = Inr ts
    \<and> int_getfloat rt config ''TRAIN_CONFIG'' ''log_interval'' = Inr ls
    \<and> getint rt config ''ENV_CONFIG'' ''seed'' = Inr seed
    \<and> map_of config ''MODEL_CONFIG'' = Some model_config"
  using assms unfolding train_def
  apply -
  apply ((erule bind_prod_resultE | erule bind_resultE)+)
  apply (simp_all)
  apply (auto simp: step_defs split: if_splits option.splits disk_file.splits)
  done


lemma filter_TrainStep [simp]:
  "filter is_in_loop_test (map TrainStep xs) = []"
  "filter is_offline_test (map TrainStep xs) = []"
  "filter is_bind_port (map TrainStep xs) = []"
  by (induction xs) simp_all

text \<open>
  Claim C8. When the test mode is \<open>after_train_test\<close> the resolved flags are
  \<open>in_train_test = False\<close> and \<open>post_test = True\<close>. A training run that completes
  then consists of binding the environment, the training steps 1 to \<open>total_step\<close> with
  no in-loop test at any step, the return of the loop with \<open>is_done\<close> true, exactly one
  offline test after it, and the save of the model at the final step.
\<close>

theorem after_train_test_run:
  assumes "test_mode a = ''after_train_test''"
    and "train rt a w = (Inr (), w')"
  shows "init_test_flag (test_mode a) = Inr (False, True)
    \<and> (\<exists>config tot ts ls.
          map_of (fs_files w) (config_dir a) = Some (IniFile config)
        \<and> int_getfloat rt config ''TRAIN_CONFIG'' ''total_step'' = Inr tot
        \<and> int_getfloat rt config ''TRAIN_CONFIG'' ''test_interval'' = Inr ts
        \<and> int_getfloat rt config ''TRAIN_CONFIG'' ''log_interval'' = Inr ls
        \<and> Trainer_run False (Counter tot ts ls) (train_start a (IniFile config) w) =
            (Inr ((Counter tot ts ls)\<lparr>cur_step := max 0 tot\<rparr>),
             (train_start a (IniFile config) w)
               \<lparr>trace := trace (train_start a (IniFile config) w) @ map TrainStep [1..tot]\<rparr>)
        \<and> is_done ((Counter tot ts ls)\<lparr>cur_step := max 0 tot\<rparr>)
        \<and> new_events w w' =
            [BindPort 1, LogInfo ''Training: s dim, a dim, s dim ls, a dim ls'']
            @ map TrainStep [1..tot]
            @ [OfflineTest (role_path (base_dir a) ''data''),
               LogInfo ''Training: save final model at step'',
               SaveModel (role_path (base_dir a) ''model'') (max 0 tot)])
    \<and> filter is_in_loop_test (new_events w w') = []
    \<and> filter is_offline_test (new_events w w') = [OfflineTest (role_path (base_dir a) ''data'')]"
proof -
  have flags: "init_test_flag (test_mode a) = Inr (False, True)"
    using assms(1) by (simp add: init_test_flag_def)
  from train_Inr_conditions [OF assms(2)] flags
  obtain config env_config tot ts ls seed model_config where c:
    "map_of (fs_files w) (config_dir a) = Some (IniFile config)"
    "map_of config ''ENV_CONFIG'' = Some env_config"
    "int_getfloat rt config ''TRAIN_CONFIG'' ''total_step'' = Inr tot"
    "int_getfloat rt config ''TRAIN_CONFIG'' ''test_interval'' = Inr ts"
    "int_getfloat rt config ''TRAIN_CONFIG'' ''log_interval'' = Inr ls"
    "getint rt config ''ENV_CONFIG'' ''seed'' = Inr seed"
    "map_of config ''MODEL_CONFIG'' = Some model_config"
    by auto
  let ?s = "train_start a (IniFile config) w"
  let ?c = "Counter tot ts ls"
  have run: "Trainer_run False ?c ?s =
      (Inr (?c\<lparr>cur_step := max 0 tot\<rparr>), ?s\<lparr>trace := trace ?s @ map TrainStep [1..tot]\<rparr>)"
    using Trainer_run_no_test [of False ?c ?s] by (simp add: Counter_def)
  have fin: "is_done (?c\<lparr>cur_step := max 0 tot\<rparr>)"
    by (simp add: is_done_def Counter_def)
  have "train rt a w =
      (Inr (), ?s\<lparr>trace := trace ?s @ map TrainStep [1..tot]
         @ [OfflineTest (role_path (base_dir a) ''data''),
            LogInfo ''Training: save final model at step'',
            SaveModel (role_path (base_dir a) ''model'') (max 0 tot)]\<rparr>)"
    by (simp add: train_run_eq [OF c(1) flags c(2-7)] run)
  with assms(2) have w': "w' = ?s\<lparr>trace := trace ?s @ map TrainStep [1..tot]
         @ [OfflineTest (role_path (base_dir a) ''data''),
            LogInfo ''Training: save final model at step'',
            SaveModel (role_path (base_dir a) ''model'') (max 0 tot)]\<rparr>"
    by simp
  have ev: "new_events w w' =
      [BindPort 1, LogInfo ''Training: s dim, a dim, s dim ls, a dim ls'']
      @ map TrainStep [1..tot]
      @ [OfflineTest (role_path (base_dir a) ''data''),
         LogInfo ''Training: save final model at step'',
         SaveModel (role_path (base_dir a) ''model'') (max 0 tot)]"
    unfolding w' by (simp add: new_events_def train_start_def)
  have f1: "filter is_in_loop_test (new_events w w') = []"
    unfolding ev by simp
  have f2: "filter is_offline_test (new_events w w')
      = [OfflineTest (role_path (base_dir a) ''data'')]"
    unfolding ev by simp
  from flags c run fin ev f1 f2 show ?thesis by blast
qed


lemma demo_reads:
  "map_of demo_config ''ENV_CONFIG'' = Some [(''seed'', ''42'')]"
  "map_of demo_config ''MODEL_CONFIG'' = Some []"
  "int_getfloat python demo_config ''TRAIN_CONFIG'' ''total_step'' = Inr 3"
  "int_getfloat python demo_config ''TRAIN_CONFIG'' ''test_interval'' = Inr 2"
  "int_getfloat python demo_config ''TRAIN_CONFIG'' ''log_interval'' = Inr 1"
  "getint python demo_config ''ENV_CONFIG'' ''seed'' = Inr 42"
  by code_simp+

lemma demo_round_reads:
  "map_of demo_round_config ''ENV_CONFIG'' = Some [(''seed'', ''42'')]"
  "map_of demo_round_config ''MODEL_CONFIG'' = Some []"
  "int_getfloat python demo_round_config ''TRAIN_CONFIG'' ''total_step'' = Inr 3"
  "int_getfloat python demo_round_config ''TRAIN_CONFIG'' ''test_interval'' = Inr 2"
  "int_getfloat python demo_round_config ''TRAIN_CONFIG'' ''log_interval'' = Inr 1"
  "getint python demo_round_config ''ENV_CONFIG'' ''seed'' = Inr 42"
  by code_simp+

lemma no_train_reads:
  "int_getfloat rt [(''ENV_CONFIG'', opts)] ''TRAIN_CONFIG'' opt
     = Inl (NoSectionError ''TRAIN_CONFIG'')"
  by (simp add: int_getfloat_def getfloat_def config_get_def unify_values_def)

lemmas demo_train =
  train_def step_defs demo_train_args_def demo_world_def
  role_path_def init_test_flag_def demo_reads demo_round_reads no_train_reads
  Counter_def is_done_def advance_def should_test_def Trainer_run.simps
  new_events_def MA2C_def

theorem after_train_test_run_witness:
  "test_mode (demo_train_args ''after_train_test'' ''cfg/run.ini'') = ''after_train_test''
   \<and> fst (train python (demo_train_args ''after_train_test'' ''cfg/run.ini'') demo_world) = Inr ()
   \<and> new_events demo_world
         (snd (train python (demo_train_args ''after_train_test'' ''cfg/run.ini'') demo_world))
       = [BindPort 1, LogInfo ''Training: s dim, a dim, s dim ls, a dim ls'',
          TrainStep 1, TrainStep 2, TrainStep 3,
          OfflineTest ''exp/ma2c/data'',
          LogInfo ''Training: save final model at step'',
          SaveModel ''exp/ma2c/model'' 3]"
proof -
  have r: "fst (train python (demo_train_args ''after_train_test'' ''cfg/run.ini'') demo_world)
      = Inr ()"
    by (simp add: demo_train)
  then have "train python (demo_train_args ''after_train_test'' ''cfg/run.ini'') demo_world
      = (Inr (), snd (train python (demo_train_args ''after_train_test'' ''cfg/run.ini'')
                        demo_world))"
    by (metis prod.collapse)
  from after_train_test_run [OF _ this] r show ?thesis
    by (simp add: demo_train)
qed

lemma train_success_events:
  assumes "train rt a w = (Inr (), w')"
  shows "\<exists>config in_test post_test tot ts ls c' steps.
      map_of (fs_files w) (config_dir a) = Some (IniFile config)
    \<and> init_test_flag (test_mode a) = Inr (in_test, post_test)
    \<and> int_getfloat rt config ''TRAIN_CONFIG'' ''total_step'' = Inr tot
    \<and> int_getfloat rt config ''TRAIN_CONFIG'' ''test_interval'' = Inr ts
    \<and> int_getfloat rt config ''TRAIN_CONFIG'' ''log_interval'' = Inr ls
    \<and> Trainer_run in_test (Counter tot ts ls) (train_start a (IniFile config) w) =
        (Inr c', (train_start a (IniFile config) w)
                   \<lparr>trace := trace (train_start a (IniFile config) w) @ steps\<rparr>)
    \<and> list_all is_training_event steps
    \<and> new_events w w' =
        [BindPort 1, LogInfo ''Training: s dim, a dim, s dim ls, a dim ls'']
        @ steps
        @ (if post_test then [OfflineTest (role_path (base_dir a) ''data'')] else [])
        @ [LogInfo ''Training: save final model at step'',
           SaveModel (role_path (base_dir a) ''model'') (cur_step c')]"
proof -
  from train_Inr_conditions [OF assms]
  obtain config in_test post_test env_config tot ts ls seed model_config where c:
    "map_of (fs_files w) (config_dir a) = Some (IniFile config)"
    "init_test_flag (test_mode a) = Inr (in_test, post_test)"
    "map_of config ''ENV_CONFIG'' = Some env_config"
    "int_getfloat rt config ''TRAIN_CONFIG'' ''total_step'' = Inr tot"
    "int_getfloat rt config ''TRAIN_CONFIG'' ''test_interval'' = Inr ts"
    "int_getfloat rt config ''TRAIN_CONFIG'' ''log_interval'' = Inr ls"
    "getint rt config ''ENV_CONFIG'' ''seed'' = Inr seed"
    "map_of config ''MODEL_CONFIG'' = Some model_config"
    by blast
  let ?s = "train_start a (IniFile config) w"
  obtain r w2 where run: "Trainer_run in_test (Counter tot ts ls) ?s = (r, w2)"
    by (cases "Trainer_run in_test (Counter tot ts ls) ?s")
  from Trainer_run_trace [OF run] obtain steps where
    w2: "w2 = ?s\<lparr>trace := trace ?s @ steps\<rparr>" and st: "list_all is_training_event steps"
    by blast
  from assms train_run_eq [OF c] run obtain c' where r: "r = Inr c'"
    and w': "w' = w2\<lparr>trace := trace w2
             @ (if post_test then [OfflineTest (role_path (base_dir a) ''data'')] else [])
             @ [LogInfo ''Training: save final model at step'',
                SaveModel (role_path (base_dir a) ''model'') (cur_step c')]\<rparr>"
    by (cases r) auto
  have ev: "new_events w w' =
        [BindPort 1, LogInfo ''Training: s dim, a dim, s dim ls, a dim ls'']
        @ steps
        @ (if post_test then [OfflineTest (role_path (base_dir a) ''data'')] else [])
        @ [LogInfo ''Training: save final model at step'',
           SaveModel (role_path (base_dir a) ''model'') (cur_step c')]"
    unfolding w' w2 by (simp add: new_events_def train_start_def)
  from c(1,2,4,5,6) run [unfolded r w2] st ev show ?thesis by blast
qed

text \<open>
  Claim C9. Called without a port, \<open>init_env\<close> binds the environment to port 1. The
  only call in \<open>train\<close> is of that kind: whatever the arguments, the disk and the
  configuration, the ports bound in a training run are none (when the run fails before the
  environment is built) or port 1 alone, and port 1 in every run that completes. The
  workers of an evaluation get their ports from 0 on: the first worker has port 0.
\<close>

theorem training_port_is_one:
  "init_env env_config None False w =
     (Inr (\<lparr>env_port = 1, env_agent = []\<rparr>, None), w\<lparr>trace := trace w @ [BindPort 1]\<rparr>)
   \<and> (filter is_bind_port (new_events w (snd (train rt a w))) = []
       \<or> filter is_bind_port (new_events w (snd (train rt a w))) = [BindPort 1])
   \<and> (fst (train rt a w) = Inr () \<longrightarrow>
        filter is_bind_port (new_events w (snd (train rt a w))) = [BindPort 1])
   \<and> take 1 (map w_port (new_workers w (snd (evaluate ea w)))) = [0]"
proof -
  have a: "init_env env_config None False w =
     (Inr (\<lparr>env_port = 1, env_agent = []\<rparr>, None), w\<lparr>trace := trace w @ [BindPort 1]\<rparr>)"
    by (simp add: init_env_def or_default_def RealNetEnv_def bind_def return_def)
  have tr: "train rt a w = (fst (train rt a w), snd (train rt a w))" by simp
  have b: "filter is_bind_port (new_events w (snd (train rt a w))) = []
       \<or> filter is_bind_port (new_events w (snd (train rt a w))) = [BindPort 1]"
    using train_trace_shape [OF tr] by auto
  have c: "filter is_bind_port (new_events w (snd (train rt a w))) = [BindPort 1]"
    if "fst (train rt a w) = Inr ()"
  proof -
    from that tr have "train rt a w = (Inr (), snd (train rt a w))" by simp
    from train_success_events [OF this] show ?thesis
      by (auto simp: training_events_filters)
  qed
  have "py_split CHR '','' (agents ea) \<noteq> []" by (rule py_split_nonempty)
  then have "0 < length (py_split CHR '','' (agents ea))" by simp
  then have d: "take 1 (map w_port (new_workers w (snd (evaluate ea w)))) = [0]"
    unfolding evaluate_ports by (simp add: take_map upt_rec [of 0])
  from a b c d show ?thesis by blast
qed

theorem training_port_is_one_witness:
  "fst (train python (demo_train_args ''no_test'' ''cfg/run.ini'') demo_world) = Inr ()
   \<and> filter is_bind_port
        (new_events demo_world
           (snd (train python (demo_train_args ''no_test'' ''cfg/run.ini'') demo_world)))
       = [BindPort 1]
   \<and> map w_port (new_workers demo_world (snd (evaluate (demo_eval_args ''ma2c'') demo_world)))
       = [0]"
  using training_port_is_one [of "[]" demo_world python
          "demo_train_args ''no_test'' ''cfg/run.ini''" "demo_eval_args ''ma2c''"]
  by (simp add: demo_train evaluate_ports demo_eval_args_def)

section \<open>Rounding a decimal to a double\<close>








section \<open>The schedule parameters\<close>






lemma train_early_failure:
  assumes "map_of (fs_files w) (config_dir a) = None
         \<or> map_of (fs_files w) (config_dir a) = Some Garbled
         \<or> (\<exists>config. map_of (fs_files w) (config_dir a) = Some (IniFile config)
                \<and> map_of config ''ENV_CONFIG'' = None)"
  shows "(\<exists>e. fst (train rt a w) = Inl e) \<and> new_events w (snd (train rt a w)) = []"
  using assms
proof (elim disjE exE conjE)
  assume "map_of (fs_files w) (config_dir a) = None"
  then show ?thesis by (simp add: train_def step_defs new_events_def)
next
  assume "map_of (fs_files w) (config_dir a) = Some Garbled"
  then show ?thesis by (simp add: train_def step_defs new_events_def)
next
  fix config
  assume "map_of (fs_files w) (config_dir a) = Some (IniFile config)"
    and "map_of config ''ENV_CONFIG'' = None"
  then show ?thesis
    by (cases "init_test_flag (test_mode a)")
       (simp_all add: train_def step_defs new_events_def split: prod.splits)
qed

lemma train_late_failure:
  assumes r: "train rt a w = (r, w')"
    and f: "map_of (fs_files w) (config_dir a) = Some (IniFile config)"
    and e: "map_of config ''ENV_CONFIG'' = Some env_config"
    and m: "init_test_flag (test_mode a) = Inr flags"
    and s: "map_of config ''TRAIN_CONFIG'' = None \<or> map_of config ''MODEL_CONFIG'' = None"
  shows "(\<exists>e. r = Inl e)
       \<and> new_events w w' = [BindPort 1, LogInfo ''Training: s dim, a dim, s dim ls, a dim ls'']"
  using r f e m s unfolding train_def
  apply -
  apply ((erule bind_prod_resultE | erule bind_resultE)+)
  apply (auto simp: step_defs new_events_def int_getfloat_def getfloat_def config_get_def
      unify_values_def split: if_splits option.splits disk_file.splits)
  done

text \<open>
  Claim C7, as stated, says that a run with a missing configuration section aborts before
  any resource is acquired. With a configuration that has \<open>ENV_CONFIG\<close> but no
  \<open>TRAIN_CONFIG\<close> the run aborts with the run directories created and the environment
  bound to port 1.
\<close>

theorem config_error_state_counterexample:
  "fst (train python (demo_train_args ''no_test'' ''cfg/no_train.ini'') demo_world)
     = Inl (NoSectionError ''TRAIN_CONFIG'')
   \<and> trace (snd (train python (demo_train_args ''no_test'' ''cfg/no_train.ini'') demo_world))
     = [BindPort 1, LogInfo ''Training: s dim, a dim, s dim ls, a dim ls'']
   \<and> ''exp/ma2c/log'' \<notin> fs_dirs demo_world
   \<and> ''exp/ma2c/log'' \<in>
       fs_dirs (snd (train python (demo_train_args ''no_test'' ''cfg/no_train.ini'') demo_world))"
  by (simp add: demo_train)

text \<open>
  Claim C7, as amended. On a malformed or missing configuration file or section the
  training run aborts with an error, after the run directories were created. When the
  file is missing or malformed or has no \<open>ENV_CONFIG\<close> section, the run aborts before
  anything else happens: no simulator port is bound. When the \<open>TRAIN_CONFIG\<close> or the
  \<open>MODEL_CONFIG\<close> section is missing, the run aborts after the environment was bound
  to port 1, before any training step.
\<close>

theorem config_error_aborts:
  "(map_of (fs_files w) (config_dir a) = None
      \<or> map_of (fs_files w) (config_dir a) = Some Garbled
      \<or> (\<exists>config. map_of (fs_files w) (config_dir a) = Some (IniFile config)
             \<and> map_of config ''ENV_CONFIG'' = None)
    \<longrightarrow> (\<exists>e. fst (train rt a w) = Inl e) \<and> new_events w (snd (train rt a w)) = [])
   \<and> ((\<exists>config env_config.
          map_of (fs_files w) (config_dir a) = Some (IniFile config)
          \<and> map_of config ''ENV_CONFIG'' = Some env_config
          \<and> (map_of config ''TRAIN_CONFIG'' = None \<or> map_of config ''MODEL_CONFIG'' = None))
        \<and> test_mode a \<in> set test_mode_choices
    \<longrightarrow> (\<exists>e. fst (train rt a w) = Inl e)
        \<and> new_events w (snd (train rt a w))
            = [BindPort 1, LogInfo ''Training: s dim, a dim, s dim ls, a dim ls''])
   \<and> fs_dirs (snd (train rt a w))
       = fs_dirs w \<union> {role_path (base_dir a) ''log'', role_path (base_dir a) ''data'',
                       role_path (base_dir a) ''model''}"
proof -
  have tr: "train rt a w = (fst (train rt a w), snd (train rt a w))" by simp
  have late: "(\<exists>e. fst (train rt a w) = Inl e)
        \<and> new_events w (snd (train rt a w))
            = [BindPort 1, LogInfo ''Training: s dim, a dim, s dim ls, a dim ls'']"
    if f: "map_of (fs_files w) (config_dir a) = Some (IniFile config)"
      and e: "map_of config ''ENV_CONFIG'' = Some env_config"
      and s: "map_of config ''TRAIN_CONFIG'' = None \<or> map_of config ''MODEL_CONFIG'' = None"
      and m: "test_mode a \<in> set test_mode_choices"
    for config env_config
  proof -
    from m have "\<exists>flags. init_test_flag (test_mode a) = Inr flags"
      by (auto simp: test_mode_choices_def init_test_flag_def)
    then obtain flags where "init_test_flag (test_mode a) = Inr flags" ..
    from train_late_failure [OF tr f e this s] show ?thesis .
  qed
  from train_early_failure [of w a rt] late train_dirs [OF tr] show ?thesis
    by blast
qed

theorem config_error_aborts_witness:
  "map_of (fs_files demo_world) ''cfg/nowhere.ini'' = None
   \<and> fst (train python (demo_train_args ''no_test'' ''cfg/nowhere.ini'') demo_world)
       = Inl (FileNotFoundError ''cfg/nowhere.ini'')
   \<and> new_events demo_world
        (snd (train python (demo_train_args ''no_test'' ''cfg/nowhere.ini'') demo_world)) = []
   \<and> map_of (fs_files demo_world) ''cfg/no_train.ini''
       = Some (IniFile [(''ENV_CONFIG'', [(''seed'', ''42'')])])
   \<and> test_mode (demo_train_args ''no_test'' ''cfg/no_train.ini'') \<in> set test_mode_choices
   \<and> fst (train python (demo_train_args ''no_test'' ''cfg/no_train.ini'') demo_world)
       = Inl (NoSectionError ''TRAIN_CONFIG'')
   \<and> new_events demo_world
        (snd (train python (demo_train_args ''no_test'' ''cfg/no_train.ini'') demo_world))
       = [BindPort 1, LogInfo ''Training: s dim, a dim, s dim ls, a dim ls'']
   \<and> fs_dirs (snd (train python (demo_train_args ''no_test'' ''cfg/no_train.ini'') demo_world))
       = fs_dirs demo_world \<union> {''exp/ma2c/log'', ''exp/ma2c/data'', ''exp/ma2c/model''}"
  using config_error_aborts [of demo_world "demo_train_args ''no_test'' ''cfg/nowhere.ini''" python]
    config_error_aborts [of demo_world "demo_train_args ''no_test'' ''cfg/no_train.ini''" python]
  by (simp add: demo_train test_mode_choices_def)

text \<open>
  Claim C2. The resolver maps \<open>no_test\<close>, \<open>in_train_test\<close>, \<open>after_train_test\<close> and
  \<open>all_test\<close> to the pairs \<open>(False, False)\<close>, \<open>(True, False)\<close>, \<open>(False, True)\<close> and
  \<open>(True, True)\<close>, and it fails on every other string. Such a string never reaches it:
  the command line is rejected by \<open>parse_args\<close>, and \<open>main\<close> leaves with the world
  untouched, no directory created and no port bound. Whatever \<open>parse_args\<close> accepts for
  a training run resolves.
\<close>

theorem test_mode_resolver:
  "init_test_flag ''no_test'' = Inr (False, False)
   \<and> init_test_flag ''in_train_test'' = Inr (True, False)
   \<and> init_test_flag ''after_train_test'' = Inr (False, True)
   \<and> init_test_flag ''all_test'' = Inr (True, True)
   \<and> (m \<notin> set test_mode_choices \<longrightarrow>
        init_test_flag m = Inl (InvalidModeError m)
        \<and> parse_args \<lparr>given_base_dir = b, given_command = TrainCommand (Some m) cd\<rparr>
            = Inl (SystemExit 2)
        \<and> main rt \<lparr>given_base_dir = b, given_command = TrainCommand (Some m) cd\<rparr> w
            = (Inl (SystemExit 2), w))
   \<and> (parse_args cl = Inr parsed \<and> option parsed = ''train'' \<longrightarrow>
        test_mode parsed \<in> set test_mode_choices
        \<and> (\<exists>flags. init_test_flag (test_mode parsed) = Inr flags))"
proof -
  have bad: "init_test_flag m = Inl (InvalidModeError m)
        \<and> parse_args \<lparr>given_base_dir = b, given_command = TrainCommand (Some m) cd\<rparr>
            = Inl (SystemExit 2)
        \<and> main rt \<lparr>given_base_dir = b, given_command = TrainCommand (Some m) cd\<rparr> w
            = (Inl (SystemExit 2), w)"
    if "m \<notin> set test_mode_choices"
    using that
    by (simp add: test_mode_choices_def init_test_flag_def parse_args_def main_def or_default_def)
  have good: "test_mode parsed \<in> set test_mode_choices
        \<and> (\<exists>flags. init_test_flag (test_mode parsed) = Inr flags)"
    if "parse_args cl = Inr parsed" "option parsed = ''train''"
  proof -
    from that have "test_mode parsed \<in> set test_mode_choices"
      by (auto simp: parse_args_def Let_def split: subcommand.splits if_splits)
    then show ?thesis
      by (auto simp: test_mode_choices_def init_test_flag_def)
  qed
  from bad good show ?thesis
    by (simp add: init_test_flag_def)
qed

theorem test_mode_resolver_witness:
  "''sometimes'' \<notin> set test_mode_choices
   \<and> init_test_flag ''sometimes'' = Inl (InvalidModeError ''sometimes'')
   \<and> main python \<lparr>given_base_dir = Some ''exp/ma2c'',
                    given_command = TrainCommand (Some ''sometimes'') (Some ''cfg/run.ini'')\<rparr>
        demo_world = (Inl (SystemExit 2), demo_world)
   \<and> parse_args \<lparr>given_base_dir = Some ''exp/ma2c'',
                  given_command = TrainCommand (Some ''all_test'') (Some ''cfg/run.ini'')\<rparr>
       = Inr (demo_train_args ''all_test'' ''cfg/run.ini'')
   \<and> option (demo_train_args ''all_test'' ''cfg/run.ini'') = ''train''
   \<and> init_test_flag (test_mode (demo_train_args ''all_test'' ''cfg/run.ini'')) = Inr (True, True)"
  using test_mode_resolver [of "''sometimes''" "Some ''exp/ma2c''" "Some ''cfg/run.ini''" python
      demo_world
      "\<lparr>given_base_dir = Some ''exp/ma2c'',
        given_command = TrainCommand (Some ''all_test'') (Some ''cfg/run.ini'')\<rparr>"
      "demo_train_args ''all_test'' ''cfg/run.ini''"]
  by (simp add: test_mode_choices_def init_test_flag_def parse_args_def main_def or_default_def
      demo_train_args_def)

end
